theory Spec2Isabelle
  imports Main "HOL-Library.Word"
begin

section \<open>Exceptions and results\<close>

text \<open>
  The C++ sources signal failure by throwing. A call that can throw returns
  \<open>exn + 'a\<close>, with \<open>Inl\<close> for the exception. \<open>Runtime_error\<close> is
  \<open>std::runtime_error\<close>, \<open>Invalid_argument\<close> and \<open>Out_of_range\<close> are what
  \<open>std::stoul\<close> and \<open>std::stod\<close> throw, \<open>Image_load_error\<close> is what
  \<open>dlib::load_image\<close> throws, \<open>Fatal_error\<close> is what \<open>DLIB_CASSERT\<close> throws. All
  of these derive from \<open>std::exception\<close> and carry the \<open>std::string\<close> they were built
  with.
  \<open>Assertion_failed\<close> is not an exception: it marks a failed \<open>assert\<close> (also
  \<open>RAPIDJSON_ASSERT\<close>, which is \<open>assert\<close> unless redefined) or an access outside a
  container, where the program is aborted or has no defined behaviour.
\<close>

datatype exn =
    Runtime_error string
  | Invalid_argument string
  | Out_of_range string
  | Image_load_error string
  | Fatal_error string
  | Assertion_failed

fun is_std_exception :: "exn \<Rightarrow> bool" where
  "is_std_exception Assertion_failed = False"
| "is_std_exception _ = True"

text \<open>
  \<open>what()\<close> returns a \<open>const char*\<close> into that string. Whoever reads it as a C
  string, as the assignment \<open>sample.error = e.what()\<close> does, gets the characters before
  the first NUL character and nothing after it.
\<close>

definition c_str :: "string \<Rightarrow> string" where
  "c_str s = takeWhile (\<lambda>c. c \<noteq> CHR 0x00) s"

fun what :: "exn \<Rightarrow> string" where
  "what (Runtime_error m) = c_str m"
| "what (Invalid_argument m) = c_str m"
| "what (Out_of_range m) = c_str m"
| "what (Image_load_error m) = c_str m"
| "what (Fatal_error m) = c_str m"
| "what Assertion_failed = []"

text \<open>
  Two statements in sequence: when the first throws, the second is not run.
\<close>

definition exn_bind :: "exn + 'a \<Rightarrow> ('a \<Rightarrow> exn + 'b) \<Rightarrow> exn + 'b" where
  "exn_bind m f = (case m of Inl e \<Rightarrow> Inl e | Inr x \<Rightarrow> f x)"

section \<open>Data model of annonet.h\<close>

type_synonym uint8_t = "8 word"
type_synonym uint16_t = "16 word"

record rgb_alpha_pixel =
  red :: uint8_t
  green :: uint8_t
  blue :: uint8_t
  alpha :: uint8_t

record AnnoClass =
  index :: uint16_t
  rgba_label :: rgb_alpha_pixel
  classlabel :: string

definition rgba_ignore_label :: rgb_alpha_pixel where
  "rgba_ignore_label = \<lparr>red = 0, green = 0, blue = 0, alpha = 0\<rparr>"

text \<open>
  Modelled from the spec: \<open>dlib::loss_multiclass_log_per_pixel_::label_to_ignore\<close> is
  declared in dlib, not in this repository. The spec calls it the one reserved "ignore"
  sentinel of the class-index type; dlib defines it as the largest value of \<open>uint16_t\<close>.
\<close>

definition label_to_ignore :: uint16_t where
  "label_to_ignore = 65535"

text \<open>
  \<open>operator ==\<close> on pixels compares the four components.
\<close>

definition pixel_eq :: "rgb_alpha_pixel \<Rightarrow> rgb_alpha_pixel \<Rightarrow> bool" where
  "pixel_eq a b \<longleftrightarrow>
     red a = red b \<and> green a = green b \<and> blue a = blue b \<and> alpha a = alpha b"

text \<open>
  The message of the unknown-class error is built with \<open>operator <<\<close> on the
  components, which are \<open>unsigned char\<close>: each one is written as the character with
  that code, not as a number.
\<close>

definition char_of_uint8 :: "uint8_t \<Rightarrow> char" where
  "char_of_uint8 b = char_of (unat b)"

definition unknown_class_message :: "rgb_alpha_pixel \<Rightarrow> string" where
  "unknown_class_message p =
     ''Unknown class: r = '' @ [char_of_uint8 (red p)] @ '', g = '' @ [char_of_uint8 (green p)]
       @ '', b = '' @ [char_of_uint8 (blue p)] @ '', alpha = '' @ [char_of_uint8 (alpha p)]"

text \<open>The range-for loop of \<open>rgba_label_to_index_label\<close>: the first class with the colour.\<close>

fun find_class :: "rgb_alpha_pixel \<Rightarrow> AnnoClass list \<Rightarrow> uint16_t option" where
  "find_class p [] = None"
| "find_class p (c # cs) = (if pixel_eq (rgba_label c) p then Some (index c) else find_class p cs)"

definition rgba_label_to_index_label :: "rgb_alpha_pixel \<Rightarrow> AnnoClass list \<Rightarrow> exn + uint16_t" where
  "rgba_label_to_index_label p anno_classes =
     (if pixel_eq p rgba_ignore_label then Inr label_to_ignore
      else case find_class p anno_classes of
             Some i \<Rightarrow> Inr i
           | None \<Rightarrow> Inl (Runtime_error (unknown_class_message p)))"

section \<open>Index labels back to colours (annonet\_infer\_main.cpp)\<close>

text \<open>
  \<open>anno_classes[index_label]\<close> outside the vector has no defined behaviour, and the
  \<open>assert\<close> aborts when the class found there carries another index.
\<close>

definition index_label_to_rgba_label :: "uint16_t \<Rightarrow> AnnoClass list \<Rightarrow> exn + rgb_alpha_pixel" where
  "index_label_to_rgba_label index_label anno_classes =
     (if unat index_label < length anno_classes then
        (let anno_class = anno_classes ! unat index_label
         in if index anno_class = index_label then Inr (rgba_label anno_class)
            else Inl Assertion_failed)
      else Inl Assertion_failed)"

section \<open>Class definitions from JSON (parse\_anno\_classes)\<close>

text \<open>
  A rapidjson value. \<open>JInt\<close> is a number written as an integer, \<open>JDouble\<close> any other
  number; only the kind of a non-integer number is ever looked at. An object keeps its
  members in document order, and \<open>FindMember\<close> returns the first member of that name.
\<close>

datatype json =
    JNull
  | JBool bool
  | JInt int
  | JDouble
  | JString string
  | JArray "json list"
  | JObject "(string \<times> json) list"

text \<open>
  \<open>FindMember\<close> asserts that the value is an object. \<open>None\<close> inside \<open>Inr\<close> is the
  end iterator \<open>MemberEnd()\<close>.
\<close>

fun FindMember :: "json \<Rightarrow> string \<Rightarrow> exn + json option" where
  "FindMember (JObject members) name = Inr (map_of members name)"
| "FindMember _ name = Inl Assertion_failed"

text \<open>\<open>GetInt\<close> asserts that the number is an integer that fits \<open>int\<close> (32 bits).\<close>

fun GetInt :: "json \<Rightarrow> exn + int" where
  "GetInt (JInt i) = (if - (2 ^ 31) \<le> i \<and> i < 2 ^ 31 then Inr i else Inl Assertion_failed)"
| "GetInt _ = Inl Assertion_failed"

fun GetString :: "json \<Rightarrow> exn + string" where
  "GetString (JString s) = Inr s"
| "GetString _ = Inl Assertion_failed"

text \<open>
  The constructor of \<open>dlib::rgb_alpha_pixel\<close> takes four \<open>unsigned char\<close>: the
  \<open>int\<close> read from the document is reduced modulo 256.
\<close>

definition make_rgb_alpha_pixel :: "int \<Rightarrow> int \<Rightarrow> int \<Rightarrow> int \<Rightarrow> rgb_alpha_pixel" where
  "make_rgb_alpha_pixel r g b a =
     \<lparr>red = word_of_int r, green = word_of_int g, blue = word_of_int b, alpha = word_of_int a\<rparr>"

definition no_name_message :: string where
  "no_name_message = ''Unexpected anno classes json content - no name found''"

definition no_color_message :: string where
  "no_color_message = ''Unexpected anno classes json content - no color found''"

definition color_components_message :: string where
  "color_components_message =
     ''Unexpected anno classes json content - color should have all components (red, green, blue, alpha)''"

definition reserved_color_message :: string where
  "reserved_color_message =
     ''Unexpected anno classes json content - rgba (0, 0, 0, 0) is reserved for pixels to be ignored''"

definition not_object_message :: string where
  "not_object_message = ''Unexpected anno classes json content - the document should be an object''"

definition no_array_message :: string where
  "no_array_message = ''Unexpected anno classes json content - there should be an anno_classes array''"

text \<open>
  The body of the loop over the \<open>anno_classes\<close> array, for the entry at position
  \<open>i\<close>, in three steps: the four \<open>FindMember\<close> calls on the colour and the test that
  none of them is the end iterator; the four \<open>GetInt\<close> calls that build the pixel; and
  the whole body. The index of the class is \<open>i\<close> converted to \<open>uint16_t\<close>.
\<close>

definition find_color_components :: "json \<Rightarrow> exn + (json \<times> json \<times> json \<times> json)" where
  "find_color_components color =
     exn_bind (FindMember color ''red'') (\<lambda>red_member.
     exn_bind (FindMember color ''green'') (\<lambda>green_member.
     exn_bind (FindMember color ''blue'') (\<lambda>blue_member.
     exn_bind (FindMember color ''alpha'') (\<lambda>alpha_member.
       if red_member = None \<or> green_member = None \<or> blue_member = None \<or> alpha_member = None
       then Inl (Runtime_error color_components_message)
       else Inr (the red_member, the green_member, the blue_member, the alpha_member)))))"

definition read_rgba_value :: "json \<times> json \<times> json \<times> json \<Rightarrow> exn + rgb_alpha_pixel" where
  "read_rgba_value components =
     exn_bind (GetInt (fst components)) (\<lambda>r.
     exn_bind (GetInt (fst (snd components))) (\<lambda>g.
     exn_bind (GetInt (fst (snd (snd components)))) (\<lambda>b.
     exn_bind (GetInt (snd (snd (snd components)))) (\<lambda>a.
       Inr (make_rgb_alpha_pixel r g b a)))))"

definition parse_anno_class :: "nat \<Rightarrow> json \<Rightarrow> exn + AnnoClass" where
  "parse_anno_class i anno_class =
     exn_bind (FindMember anno_class ''name'') (\<lambda>name_member.
     exn_bind (FindMember anno_class ''color'') (\<lambda>color_member.
       if name_member = None then Inl (Runtime_error no_name_message)
       else if color_member = None then Inl (Runtime_error no_color_message)
       else
         exn_bind (find_color_components (the color_member)) (\<lambda>components.
         exn_bind (read_rgba_value components) (\<lambda>rgba_value.
           if pixel_eq rgba_value rgba_ignore_label
           then Inl (Runtime_error reserved_color_message)
           else
             exn_bind (GetString (the name_member)) (\<lambda>name.
               Inr \<lparr>index = of_nat i, rgba_label = rgba_value, classlabel = name\<rparr>)))))"

text \<open>The loop itself: \<open>i\<close> counts the entries done, \<open>acc\<close> is the vector built so far.\<close>

fun parse_anno_class_array :: "nat \<Rightarrow> json list \<Rightarrow> AnnoClass list \<Rightarrow> exn + AnnoClass list" where
  "parse_anno_class_array i [] acc = Inr acc"
| "parse_anno_class_array i (e # es) acc =
     exn_bind (parse_anno_class i e) (\<lambda>c. parse_anno_class_array (Suc i) es (acc @ [c]))"

definition default_anno_classes :: "AnnoClass list" where
  "default_anno_classes =
     [\<lparr>index = 0, rgba_label = \<lparr>red = 0, green = 255, blue = 0, alpha = 64\<rparr>, classlabel = ''clean''\<rparr>,
      \<lparr>index = 1, rgba_label = \<lparr>red = 255, green = 0, blue = 0, alpha = 128\<rparr>, classlabel = ''defect''\<rparr>]"

text \<open>
  \<open>Parse\<close> stands for the call \<open>doc.Parse(json.c_str())\<close> of the JSON reader of an
  external library, as a function of the string \<open>json\<close>: \<open>None\<close> is a document with a
  parse error.
\<close>

definition anno_classes_of_document :: "json \<Rightarrow> exn + AnnoClass list" where
  "anno_classes_of_document doc =
     (case doc of
        JObject members \<Rightarrow>
          (case map_of members ''anno_classes'' of
             Some (JArray entries) \<Rightarrow> parse_anno_class_array 0 entries []
           | _ \<Rightarrow> Inl (Runtime_error no_array_message))
      | _ \<Rightarrow> Inl (Runtime_error not_object_message))"

definition parse_anno_classes :: "(string \<Rightarrow> json option) \<Rightarrow> string \<Rightarrow> exn + AnnoClass list" where
  "parse_anno_classes Parse json_text =
     (if json_text = [] then Inr default_anno_classes
      else (case Parse json_text of
              None \<Rightarrow> Inl (Runtime_error (''Error parsing json'' @ [CHR 0x0A] @ json_text))
            | Some doc \<Rightarrow> anno_classes_of_document doc))"

section \<open>Class-specific gains from the command line\<close>

record 'v class_specific_value_type =
  class_index :: uint16_t
  cs_value :: 'v

text \<open>\<open>std::string::find\<close> of a character: \<open>None\<close> is \<open>npos\<close>.\<close>

fun find_char :: "char \<Rightarrow> string \<Rightarrow> nat option" where
  "find_char c [] = None"
| "find_char c (x # xs) = (if x = c then Some 0 else map_option Suc (find_char c xs))"

text \<open>
  \<open>std::stoul\<close> in base 10, as \<open>strtoul\<close> reads it: white space is skipped, one sign
  is accepted, then the longest run of digits is the value. No digit at all is
  \<open>std::invalid_argument\<close>; a value that does not fit \<open>unsigned long\<close> is
  \<open>std::out_of_range\<close>; a minus sign negates the value in \<open>unsigned long\<close>. The width
  \<open>w\<close> of \<open>unsigned long\<close> depends on the platform (32 or 64). The text of \<open>what()\<close>
  is the library's.
\<close>

definition isspace :: "char \<Rightarrow> bool" where
  "isspace c \<longleftrightarrow> c \<in> set [CHR '' '', CHR 0x09, CHR 0x0A, CHR 0x0B, CHR 0x0C, CHR 0x0D]"

definition isdigit :: "char \<Rightarrow> bool" where
  "isdigit c \<longleftrightarrow> (48::nat) \<le> of_char c \<and> (of_char c :: nat) \<le> 57"

definition digit_value :: "char \<Rightarrow> nat" where
  "digit_value c = (of_char c :: nat) - 48"

definition decimal_value :: "string \<Rightarrow> nat" where
  "decimal_value ds = foldl (\<lambda>v d. 10 * v + digit_value d) 0 ds"

definition stoul :: "nat \<Rightarrow> string \<Rightarrow> exn + nat" where
  "stoul w s =
     (let s1 = dropWhile isspace s;
          negative = (s1 \<noteq> [] \<and> hd s1 = CHR ''-'');
          s2 = (if s1 \<noteq> [] \<and> (hd s1 = CHR ''-'' \<or> hd s1 = CHR ''+'') then tl s1 else s1);
          ds = takeWhile isdigit s2
      in if ds = [] then Inl (Invalid_argument ''stoul'')
         else if decimal_value ds \<ge> 2 ^ w then Inl (Out_of_range ''stoul'')
         else Inr (if negative then (2 ^ w - decimal_value ds) mod 2 ^ w else decimal_value ds))"

definition gain_format_message :: string where
  "gain_format_message = ''The gains must be supplied in the format index:gain (e.g., 1:-0.5)''"

text \<open>
  \<open>stod\<close> stands for \<open>std::stod\<close>, which reads a floating-point number: it is a
  parameter, and the gains are kept in whatever type \<open>'v\<close> it returns. In the branch
  where the colon was found the string is not empty, so \<open>length() - 1\<close> does not wrap.
  The result of \<open>std::stoul\<close> is stored in a \<open>uint16_t\<close>, which keeps its low 16 bits.
\<close>

definition parse_class_specific_value ::
  "nat \<Rightarrow> (string \<Rightarrow> exn + 'v) \<Rightarrow> string \<Rightarrow> exn + 'v class_specific_value_type" where
  "parse_class_specific_value w stod string_from_command_line =
     (case find_char CHR '':'' string_from_command_line of
        None \<Rightarrow> Inl (Runtime_error gain_format_message)
      | Some colon_pos \<Rightarrow>
          (if colon_pos < 1 \<or> colon_pos \<ge> length string_from_command_line - 1
           then Inl (Runtime_error gain_format_message)
           else
             exn_bind (stoul w (take colon_pos string_from_command_line)) (\<lambda>i.
             exn_bind (stod (drop (colon_pos + 1) string_from_command_line)) (\<lambda>v.
               Inr \<lparr>class_index = of_nat i, cs_value = v\<rparr>))))"

text \<open>A number written by \<open>operator <<\<close>: its decimal digits.\<close>

definition digit_char :: "nat \<Rightarrow> char" where
  "digit_char d = ''0123456789'' ! d"

fun decimal :: "nat \<Rightarrow> string" where
  "decimal n = (if n < 10 then [digit_char n] else decimal (n div 10) @ [digit_char (n mod 10)])"

definition index_message :: "uint16_t \<Rightarrow> uint16_t \<Rightarrow> string" where
  "index_message i class_count =
     ''Can't define class-specific value for index '' @ decimal (unat i)
       @ '' when there are only '' @ decimal (unat class_count) @ '' classes''"

text \<open>
  The loop of \<open>parse_class_specific_values\<close> over the strings, on the vector
  \<open>class_specific_values\<close> built so far.
\<close>

fun assign_class_specific_values ::
  "nat \<Rightarrow> (string \<Rightarrow> exn + 'v) \<Rightarrow> uint16_t \<Rightarrow> string list \<Rightarrow> 'v list \<Rightarrow> exn + 'v list" where
  "assign_class_specific_values w stod class_count [] class_specific_values =
     Inr class_specific_values"
| "assign_class_specific_values w stod class_count (s # ss) class_specific_values =
     exn_bind (parse_class_specific_value w stod s) (\<lambda>class_specific_value.
       if class_index class_specific_value \<ge> class_count
       then Inl (Runtime_error (index_message (class_index class_specific_value) class_count))
       else assign_class_specific_values w stod class_count ss
              (class_specific_values[unat (class_index class_specific_value) :=
                 cs_value class_specific_value]))"

definition parse_class_specific_values ::
  "nat \<Rightarrow> (string \<Rightarrow> exn + 'v::zero) \<Rightarrow> string list \<Rightarrow> uint16_t \<Rightarrow> exn + 'v list" where
  "parse_class_specific_values w stod strings_from_command_line class_count =
     assign_class_specific_values w stod class_count strings_from_command_line
       (replicate (unat class_count) 0)"

section \<open>Images and samples (annonet.h)\<close>

text \<open>
  A \<open>dlib::matrix\<close>: \<open>nr\<close> rows, \<open>nc\<close> columns, and \<open>px m r c\<close> for the element
  \<open>m(r, c)\<close>. Only the elements with \<open>r < nr\<close> and \<open>c < nc\<close> belong to the image.
\<close>

record 'a matrix =
  nr :: nat
  nc :: nat
  px :: "nat \<Rightarrow> nat \<Rightarrow> 'a"

record image_filenames =
  image_filename :: string
  label_filename :: string

text \<open>
  \<open>struct sample\<close>. The elements of \<open>label_image\<close> are \<open>None\<close> until they are
  assigned: \<open>set_size\<close> allocates them without a value. A \<open>dlib::point\<close> is the pair
  \<open>(x, y)\<close>; \<open>labeled_points_by_class\<close> has a key only for the classes that were
  given a point.
\<close>

record sample =
  image_filenames :: image_filenames
  input_image :: "uint8_t matrix"
  label_image :: "uint16_t option matrix"
  labeled_points_by_class :: "uint16_t \<rightharpoonup> (nat \<times> nat) list"
  error :: string

definition empty_matrix :: "'a \<Rightarrow> 'a matrix" where
  "empty_matrix d = \<lparr>nr = 0, nc = 0, px = (\<lambda>r c. d)\<rparr>"

definition new_sample :: sample where
  "new_sample =
     \<lparr>image_filenames = \<lparr>image_filename = [], label_filename = []\<rparr>,
      input_image = empty_matrix 0,
      label_image = empty_matrix None,
      labeled_points_by_class = Map.empty,
      error = []\<rparr>"

text \<open>
  A block of statements that changes a state \<open>'s\<close> in place and may throw returns
  the state it leaves and the exception in flight, if any. \<open>for_each\<close> is a
  \<open>for\<close> loop over the given indices whose body is such a block.
\<close>

fun for_each :: "'i list \<Rightarrow> ('i \<Rightarrow> 's \<Rightarrow> 's \<times> exn option) \<Rightarrow> 's \<Rightarrow> 's \<times> exn option" where
  "for_each [] body s = (s, None)"
| "for_each (i # rest) body s =
     (case body i s of
        (s', Some e) \<Rightarrow> (s', Some e)
      | (s', None) \<Rightarrow> for_each rest body s')"

definition push_back_point ::
  "(uint16_t \<rightharpoonup> (nat \<times> nat) list) \<Rightarrow> uint16_t \<Rightarrow> nat \<times> nat \<Rightarrow> (uint16_t \<rightharpoonup> (nat \<times> nat) list)" where
  "push_back_point m label p = m(label \<mapsto> (case m label of None \<Rightarrow> [] | Some ps \<Rightarrow> ps) @ [p])"

definition assign_px :: "'a matrix \<Rightarrow> nat \<Rightarrow> nat \<Rightarrow> 'a \<Rightarrow> 'a matrix" where
  "assign_px m r c v = m\<lparr>px := (\<lambda>r' c'. if r' = r \<and> c' = c then v else px m r' c')\<rparr>"

text \<open>The body of the two loops of \<open>decode_rgba_label_image\<close>, at row \<open>r\<close> and column \<open>c\<close>.\<close>

definition decode_pixel ::
  "rgb_alpha_pixel matrix \<Rightarrow> AnnoClass list \<Rightarrow> nat \<Rightarrow> nat \<Rightarrow>
     'z sample_scheme \<Rightarrow> 'z sample_scheme \<times> exn option" where
  "decode_pixel rgba_label_image anno_classes r c ground_truth_sample =
     (case rgba_label_to_index_label (px rgba_label_image r c) anno_classes of
        Inl e \<Rightarrow> (ground_truth_sample, Some e)
      | Inr label \<Rightarrow>
          (let s1 = (if label \<noteq> label_to_ignore
                     then ground_truth_sample\<lparr>labeled_points_by_class :=
                            push_back_point (labeled_points_by_class ground_truth_sample) label (c, r)\<rparr>
                     else ground_truth_sample)
           in (s1\<lparr>label_image := assign_px (label_image s1) r c (Some label)\<rparr>, None)))"

definition decode_rgba_label_image ::
  "rgb_alpha_pixel matrix \<Rightarrow> 'z sample_scheme \<Rightarrow> AnnoClass list \<Rightarrow> 'z sample_scheme \<times> exn option" where
  "decode_rgba_label_image rgba_label_image ground_truth_sample anno_classes =
     for_each [0 ..< nr rgba_label_image]
       (\<lambda>r. for_each [0 ..< nc rgba_label_image]
          (\<lambda>c. decode_pixel rgba_label_image anno_classes r c))
       (ground_truth_sample
          \<lparr>label_image := \<lparr>nr = nr rgba_label_image, nc = nc rgba_label_image, px = (\<lambda>r c. None)\<rparr>,
           labeled_points_by_class := Map.empty\<rparr>)"

text \<open>
  \<open>dlib::load_image\<close> is the image codec of an external library. A loader is a
  parameter: for a file name it gives the image that the call leaves in its target and,
  when the call throws, the message of its \<open>dlib::image_load_error\<close>.
\<close>

type_synonym 'a loader = "string \<Rightarrow> 'a matrix \<times> string option"

text \<open>The \<open>try\<close> block of \<open>read_sample\<close>, on the sample being filled.\<close>

definition read_sample_try ::
  "uint8_t loader \<Rightarrow> rgb_alpha_pixel loader \<Rightarrow> image_filenames \<Rightarrow> AnnoClass list \<Rightarrow> bool \<Rightarrow>
     'z sample_scheme \<Rightarrow> 'z sample_scheme \<times> exn option" where
  "read_sample_try load_input load_label filenames anno_classes require_ground_truth sample =
     (case load_input (image_filename filenames) of
        (loaded, Some m) \<Rightarrow> (sample\<lparr>input_image := loaded\<rparr>, Some (Image_load_error m))
      | (loaded, None) \<Rightarrow>
          (let sample = sample\<lparr>input_image := loaded\<rparr>
           in if label_filename filenames \<noteq> [] then
                (case load_label (label_filename filenames) of
                   (rgba_label_image, Some m) \<Rightarrow> (sample, Some (Image_load_error m))
                 | (rgba_label_image, None) \<Rightarrow>
                     (if nr (input_image sample) = nr rgba_label_image
                           \<or> nc (input_image sample) = nc rgba_label_image
                      then decode_rgba_label_image rgba_label_image sample anno_classes
                      else (sample\<lparr>error := ''Label image size mismatch''\<rparr>, None)))
              else if require_ground_truth
                then (sample\<lparr>error := ''No ground truth available''\<rparr>, None)
                else (sample, None)))"

text \<open>
  \<open>catch (std::exception& e)\<close> takes every exception derived from \<open>std::exception\<close>
  and stores \<open>e.what()\<close>, read as a C string, in the sample. The second component of the result is the
  exception that leaves the call, \<open>None\<close> when the call returns.
\<close>

definition catch_into_error :: "'z sample_scheme \<times> exn option \<Rightarrow> 'z sample_scheme \<times> exn option" where
  "catch_into_error r =
     (case r of
        (sample, None) \<Rightarrow> (sample, None)
      | (sample, Some e) \<Rightarrow>
          (if is_std_exception e then (sample\<lparr>error := what e\<rparr>, None) else (sample, Some e)))"

definition read_sample ::
  "uint8_t loader \<Rightarrow> rgb_alpha_pixel loader \<Rightarrow> image_filenames \<Rightarrow> AnnoClass list \<Rightarrow> bool \<Rightarrow>
     sample \<times> exn option" where
  "read_sample load_input load_label filenames anno_classes require_ground_truth =
     catch_into_error
       (read_sample_try load_input load_label filenames anno_classes require_ground_truth
          (new_sample\<lparr>image_filenames := filenames\<rparr>))"

section \<open>The inference program (annonet\_infer\_main.cpp)\<close>

text \<open>
  Modelled from the spec: \<open>main\<close> reads \<open>sample.original_width\<close> and
  \<open>sample.original_height\<close>, which the \<open>struct sample\<close> of annonet.h does not have.
  The spec's DecodedSample is \<open>{ imagePaths, inputImage, originalWidth, originalHeight,
  error }\<close>: the decoded sample is the sample of annonet.h with the two fields added.
\<close>

record decoded_sample = sample +
  original_width :: int
  original_height :: int

text \<open>
  Modelled from the spec: \<open>main\<close> calls \<open>read_sample\<close> with a fourth argument, the
  downscaling factor, which the \<open>read_sample\<close> of annonet.h does not take. The spec says:
  "Downscaling, if configured, is applied at decode time; originalWidth/Height always
  records the pre-downscale dimensions so output can be resized back." So the
  four-argument \<open>read_sample\<close> is the three-argument one followed by recording the size
  of the image it read and downscaling that image. \<open>downscale\<close> stands for the resize by
  the configured factor, which is floating-point work of dlib.
\<close>

definition read_sample_downscaling ::
  "uint8_t loader \<Rightarrow> rgb_alpha_pixel loader \<Rightarrow> (uint8_t matrix \<Rightarrow> uint8_t matrix) \<Rightarrow>
     image_filenames \<Rightarrow> AnnoClass list \<Rightarrow> bool \<Rightarrow> decoded_sample \<times> exn option" where
  "read_sample_downscaling load_input load_label downscale filenames anno_classes require_ground_truth =
     (case read_sample load_input load_label filenames anno_classes require_ground_truth of
        (s, thrown) \<Rightarrow>
          (\<lparr>image_filenames = image_filenames s,
            input_image = downscale (input_image s),
            label_image = label_image s,
            labeled_points_by_class = labeled_points_by_class s,
            error = error s,
            original_width = int (nc (input_image s)),
            original_height = int (nr (input_image s))\<rparr>, thrown))"

text \<open>
  \<open>struct result_image_type\<close>. Its fields \<open>original_width\<close> and \<open>original_height\<close>
  carry the names of the sample's in the source; here they are \<open>result_width\<close> and
  \<open>result_height\<close>. They are \<open>int\<close> in the source; the width and height of an image
  that the codecs can read fit it, so no wrap-around is written out.
\<close>

record result_image_type =
  filename :: string
  result_width :: int
  result_height :: int
  probability_image :: "uint8_t matrix"

text \<open>
  The \<open>for\<close> loop of \<open>main\<close> over the images. The list holds the samples in the
  order in which \<open>full_image_read_results.dequeue\<close> delivers them, \<open>requests\<close> is
  what has been put on \<open>result_image_write_requests\<close> so far. \<open>annonet_infer\<close> is
  declared in annonet\_infer.h and is a parameter: from the input image it gives the
  probability image that the call leaves, or the exception it throws. The result is the
  queue of write requests and the exception that leaves the loop, if any.
\<close>

fun main_loop ::
  "(uint8_t matrix \<Rightarrow> exn + uint8_t matrix) \<Rightarrow> decoded_sample list \<Rightarrow> result_image_type list \<Rightarrow>
     result_image_type list \<times> exn option" where
  "main_loop annonet_infer [] requests = (requests, None)"
| "main_loop annonet_infer (sample # rest) requests =
     (if error sample \<noteq> [] then (requests, Some (Runtime_error (error sample)))
      else (case annonet_infer (input_image sample) of
              Inl e \<Rightarrow> (requests, Some e)
            | Inr probability \<Rightarrow>
                main_loop annonet_infer rest
                  (requests @
                     [\<lparr>filename = image_filename (image_filenames sample) @ ''_probability_map.png'',
                       result_width = original_width sample,
                       result_height = original_height sample,
                       probability_image = probability\<rparr>])))"

text \<open>
  One turn of a writer thread: the image is resized to \<open>original_height\<close> rows and
  \<open>original_width\<close> columns and saved under the file name of the request.
  \<open>resize_image\<close> stands for \<open>dlib::resize_image\<close>, which fills a target of a given
  size: from the source image and the size it gives the elements. A negative size is
  outside the contract of \<open>set_size\<close>.
\<close>

definition write_result_image ::
  "(uint8_t matrix \<Rightarrow> nat \<Rightarrow> nat \<Rightarrow> nat \<Rightarrow> nat \<Rightarrow> uint8_t) \<Rightarrow> result_image_type \<Rightarrow>
     exn + (string \<times> uint8_t matrix)" where
  "write_result_image resize_image result_image =
     (if result_height result_image < 0 \<or> result_width result_image < 0 then Inl Assertion_failed
      else Inr (filename result_image,
                \<lparr>nr = nat (result_height result_image),
                 nc = nat (result_width result_image),
                 px = resize_image (probability_image result_image)
                        (nat (result_height result_image)) (nat (result_width result_image))\<rparr>))"

text \<open>
  What \<open>main\<close> takes from outside the repository: the JSON reader, the width of
  \<open>unsigned long\<close>, \<open>std::stod\<close>, the two image loaders, the downscaling, the
  network (which is given the gains) and the least input dimension that the network
  requires.
\<close>

record 'v external =
  ext_Parse :: "string \<Rightarrow> json option"
  ext_ulong_bits :: nat
  ext_stod :: "string \<Rightarrow> exn + 'v"
  ext_load_input :: "uint8_t loader"
  ext_load_label :: "rgb_alpha_pixel loader"
  ext_downscale :: "uint8_t matrix \<Rightarrow> uint8_t matrix"
  ext_annonet_infer :: "'v list \<Rightarrow> uint8_t matrix \<Rightarrow> exn + uint8_t matrix"
  ext_required_input_dimension :: int

text \<open>The command-line options that \<open>main\<close> reads after parsing.\<close>

record options =
  gain :: "string list"
  tile_max_width :: int
  tile_max_height :: int
  full_image_reader_thread_count :: int
  result_image_writer_thread_count :: int

text \<open>
  A run of \<open>main\<close> after the command line has been read and annonet.dnn deserialized:
  how many reader and writer threads were started, what was put on the queue of write
  requests, and the exception that left the body of \<open>main\<close>, if any.
\<close>

record main_run =
  worker_threads_started :: nat
  write_requests :: "result_image_type list"
  thrown :: "exn option"

text \<open>
  \<open>DLIB_CASSERT\<close> throws \<open>dlib::fatal_error\<close>, whose text names the failing
  expression after the place of the assertion.
\<close>

definition too_few_classes_message :: string where
  "too_few_classes_message = ''anno_classes.size() >= 2''"

definition tile_width_message :: string where
  "tile_width_message = ''tiling_parameters.max_tile_width >= min_input_dimension''"

definition tile_height_message :: string where
  "tile_height_message = ''tiling_parameters.max_tile_height >= min_input_dimension''"

text \<open>
  The classes and the gains are computed first. The threads are started after that, each
  reader applying \<open>read_sample\<close> to the files it takes; \<open>files\<close> lists the files in the
  order in which their samples reach the loop. The two assertions on the tile size come
  after the threads and before the loop. The class count handed to
  \<open>parse_class_specific_values\<close> is \<open>anno_classes.size()\<close> converted to \<open>uint16_t\<close>.
\<close>

definition workers :: "options \<Rightarrow> nat" where
  "workers opts =
     nat (max 1 (full_image_reader_thread_count opts)) + nat (max 1 (result_image_writer_thread_count opts))"

definition main :: "('v::zero) external \<Rightarrow> string \<Rightarrow> options \<Rightarrow> image_filenames list \<Rightarrow> main_run" where
  "main ext anno_classes_json opts files =
     (case parse_anno_classes (ext_Parse ext) anno_classes_json of
        Inl e \<Rightarrow> \<lparr>worker_threads_started = 0, write_requests = [], thrown = Some e\<rparr>
      | Inr anno_classes \<Rightarrow>
          (if length anno_classes < 2
           then \<lparr>worker_threads_started = 0, write_requests = [],
                 thrown = Some (Fatal_error too_few_classes_message)\<rparr>
           else (case parse_class_specific_values (ext_ulong_bits ext) (ext_stod ext) (gain opts)
                        (of_nat (length anno_classes)) of
                   Inl e \<Rightarrow> \<lparr>worker_threads_started = 0, write_requests = [], thrown = Some e\<rparr>
                 | Inr gains \<Rightarrow>
                     (if tile_max_width opts < ext_required_input_dimension ext
                      then \<lparr>worker_threads_started = workers opts, write_requests = [],
                            thrown = Some (Fatal_error tile_width_message)\<rparr>
                      else if tile_max_height opts < ext_required_input_dimension ext
                      then \<lparr>worker_threads_started = workers opts, write_requests = [],
                            thrown = Some (Fatal_error tile_height_message)\<rparr>
                      else (case main_loop (ext_annonet_infer ext gains)
                                   (map (\<lambda>f. fst (read_sample_downscaling (ext_load_input ext)
                                                     (ext_load_label ext) (ext_downscale ext) f
                                                     anno_classes False))
                                      files) [] of
                              (requests, x) \<Rightarrow>
                                \<lparr>worker_threads_started = workers opts,
                                 write_requests = requests, thrown = x\<rparr>)))))"

section \<open>Properties named by the specification\<close>

text \<open>
  Following the specification's words, the schema of one entry of the \<open>anno_classes\<close>
  array: \<open>{ name: string, color: { red, green, blue, alpha: int 0-255 } }\<close>.
\<close>

fun is_color_component :: "json option \<Rightarrow> bool" where
  "is_color_component (Some (JInt v)) = (0 \<le> v \<and> v \<le> 255)"
| "is_color_component _ = False"

fun is_color :: "json option \<Rightarrow> bool" where
  "is_color (Some (JObject components)) =
     (is_color_component (map_of components ''red'') \<and> is_color_component (map_of components ''green'')
      \<and> is_color_component (map_of components ''blue'') \<and> is_color_component (map_of components ''alpha''))"
| "is_color _ = False"

fun is_name :: "json option \<Rightarrow> bool" where
  "is_name (Some (JString n)) = True"
| "is_name _ = False"

fun is_class_entry :: "json \<Rightarrow> bool" where
  "is_class_entry (JObject members) =
     (is_name (map_of members ''name'') \<and> is_color (map_of members ''color''))"
| "is_class_entry _ = False"

text \<open>An entry whose colour is the reserved value \<open>(0,0,0,0)\<close>.\<close>

fun is_reserved_color :: "json option \<Rightarrow> bool" where
  "is_reserved_color (Some (JObject components)) =
     (map_of components ''red'' = Some (JInt 0) \<and> map_of components ''green'' = Some (JInt 0)
      \<and> map_of components ''blue'' = Some (JInt 0) \<and> map_of components ''alpha'' = Some (JInt 0))"
| "is_reserved_color _ = False"

fun has_reserved_color :: "json \<Rightarrow> bool" where
  "has_reserved_color (JObject members) = is_reserved_color (map_of members ''color'')"
| "has_reserved_color _ = False"

text \<open>
  Following the specification's words, for a gain given as \<open>index:value\<close>: the string
  contains a colon that separates a non-empty index part from a non-empty value part.
\<close>

definition has_separating_colon :: "string \<Rightarrow> bool" where
  "has_separating_colon s \<longleftrightarrow> list_ex (\<lambda>i. s ! i = CHR '':'') [1 ..< length s - 1]"

text \<open>
  The class index and the value that a well-formed gain specification names: those that
  \<open>parse_class_specific_value\<close> reads from it. A string that it rejects names none.
\<close>

definition spec_index :: "nat \<Rightarrow> (string \<Rightarrow> exn + 'v) \<Rightarrow> string \<Rightarrow> nat option" where
  "spec_index w stod s =
     (case parse_class_specific_value w stod s of
        Inl e \<Rightarrow> None
      | Inr class_specific_value \<Rightarrow> Some (unat (class_index class_specific_value)))"

definition spec_value :: "nat \<Rightarrow> (string \<Rightarrow> exn + 'v) \<Rightarrow> string \<Rightarrow> 'v option" where
  "spec_value w stod s =
     (case parse_class_specific_value w stod s of
        Inl e \<Rightarrow> None
      | Inr class_specific_value \<Rightarrow> Some (cs_value class_specific_value))"

text \<open>
  What decoding a label image leaves alone in a sample: the input image, the file names
  and the error text.
\<close>

definition kept :: "uint8_t matrix \<Rightarrow> image_filenames \<Rightarrow> string \<Rightarrow> 'z sample_scheme \<Rightarrow> bool" where
  "kept img f err s \<longleftrightarrow> input_image s = img \<and> image_filenames s = f \<and> error s = err"

section \<open>Concrete inputs\<close>

text \<open>
  A class-definition document with 65536 entries, all named \<open>a\<close> and coloured
  \<open>(1,0,0,0)\<close>: its text, the document that the JSON reader makes of it, and the class
  that the entry at position \<open>k\<close> becomes.
\<close>

definition class_entry_text :: string where
  "class_entry_text =
     [CHR ''{'', CHR 0x22] @ ''name'' @ [CHR 0x22, CHR '':'', CHR 0x22] @ ''a'' @ [CHR 0x22, CHR '','', CHR 0x22]
       @ ''color'' @ [CHR 0x22] @ '':{'' @ [CHR 0x22] @ ''red'' @ [CHR 0x22] @ '':1,'' @ [CHR 0x22] @ ''green''
       @ [CHR 0x22] @ '':0,'' @ [CHR 0x22] @ ''blue'' @ [CHR 0x22] @ '':0,'' @ [CHR 0x22] @ ''alpha''
       @ [CHR 0x22] @ '':0}}''"

definition many_classes_text :: string where
  "many_classes_text =
     [CHR ''{'', CHR 0x22] @ ''anno_classes'' @ [CHR 0x22] @ '':[''
       @ concat (replicate 65535 (class_entry_text @ '','')) @ class_entry_text @ '']}''"

definition class_entry :: json where
  "class_entry =
     JObject [(''name'', JString ''a''),
              (''color'', JObject [(''red'', JInt 1), (''green'', JInt 0), (''blue'', JInt 0), (''alpha'', JInt 0)])]"

definition many_classes_document :: json where
  "many_classes_document = JObject [(''anno_classes'', JArray (replicate 65536 class_entry))]"

definition Parse_many_classes :: "string \<Rightarrow> json option" where
  "Parse_many_classes s = (if s = many_classes_text then Some many_classes_document else None)"

definition numbered_class :: "nat \<Rightarrow> AnnoClass" where
  "numbered_class k =
     \<lparr>index = of_nat k, rgba_label = \<lparr>red = 1, green = 0, blue = 0, alpha = 0\<rparr>, classlabel = ''a''\<rparr>"

text \<open>
  A document of two entries, the second with the reserved colour, under a reader that
  knows this one text.
\<close>

definition reserved_entry :: json where
  "reserved_entry =
     JObject [(''name'', JString ''b''),
              (''color'', JObject [(''red'', JInt 0), (''green'', JInt 0), (''blue'', JInt 0), (''alpha'', JInt 0)])]"

definition reserved_text :: string where
  "reserved_text =
     [CHR ''{'', CHR 0x22] @ ''anno_classes'' @ [CHR 0x22] @ '':['' @ class_entry_text @ '',{''
       @ [CHR 0x22] @ ''name'' @ [CHR 0x22, CHR '':'', CHR 0x22] @ ''b'' @ [CHR 0x22, CHR '','', CHR 0x22]
       @ ''color'' @ [CHR 0x22] @ '':{'' @ [CHR 0x22] @ ''red'' @ [CHR 0x22] @ '':0,'' @ [CHR 0x22] @ ''green''
       @ [CHR 0x22] @ '':0,'' @ [CHR 0x22] @ ''blue'' @ [CHR 0x22] @ '':0,'' @ [CHR 0x22] @ ''alpha''
       @ [CHR 0x22] @ '':0}}]}''"

definition Parse_reserved :: "string \<Rightarrow> json option" where
  "Parse_reserved s =
     (if s = reserved_text then Some (JObject [(''anno_classes'', JArray [class_entry, reserved_entry])])
      else None)"

text \<open>A document of two entries that is accepted, under a reader that knows this one text.\<close>

definition two_classes_text :: string where
  "two_classes_text =
     [CHR ''{'', CHR 0x22] @ ''anno_classes'' @ [CHR 0x22] @ '':['' @ class_entry_text @ '',''
       @ class_entry_text @ '']}''"

definition Parse_two_classes :: "string \<Rightarrow> json option" where
  "Parse_two_classes s =
     (if s = two_classes_text then Some (JObject [(''anno_classes'', JArray [class_entry, class_entry])])
      else None)"

text \<open>
  \<open>std::stod\<close> on the decimal numerals without sign, point or exponent that are below
  \<open>2^53\<close>: there the \<open>double\<close> it returns is the number written. It stands for
  \<open>std::stod\<close> at concrete inputs, which are such numerals; on any other string this
  restriction throws.
\<close>

definition stod_integer :: "string \<Rightarrow> exn + int" where
  "stod_integer s =
     (if s \<noteq> [] \<and> list_all isdigit s \<and> decimal_value s < 2 ^ 53 then Inr (int (decimal_value s))
      else Inl (Invalid_argument ''stod''))"

text \<open>
  A directory in which every image is one grey pixel and every label image is one row of
  two pixels of the reserved colour; and one in which no image can be read.
\<close>

definition one_pixel_image :: "uint8_t matrix" where
  "one_pixel_image = \<lparr>nr = 1, nc = 1, px = (\<lambda>r c. 0)\<rparr>"

definition two_ignored_pixels :: "rgb_alpha_pixel matrix" where
  "two_ignored_pixels = \<lparr>nr = 1, nc = 2, px = (\<lambda>r c. rgba_ignore_label)\<rparr>"

definition load_one_pixel :: "uint8_t loader" where
  "load_one_pixel name = (one_pixel_image, None)"

definition load_two_ignored :: "rgb_alpha_pixel loader" where
  "load_two_ignored name = (two_ignored_pixels, None)"

definition load_unreadable :: "uint8_t loader" where
  "load_unreadable name = (empty_matrix 0, Some (''Unable to open file '' @ name))"

definition labelled_file :: image_filenames where
  "labelled_file = \<lparr>image_filename = ''a.png'', label_filename = ''a.png_mask.png''\<rparr>"

definition unlabelled_file :: image_filenames where
  "unlabelled_file = \<lparr>image_filename = ''b.png'', label_filename = []\<rparr>"

text \<open>
  Surroundings for a concrete run: no downscaling, and a network that returns its input
  as the probability image.
\<close>

definition no_downscale :: "uint8_t matrix \<Rightarrow> uint8_t matrix" where
  "no_downscale m = m"

definition infer_same :: "int list \<Rightarrow> uint8_t matrix \<Rightarrow> exn + uint8_t matrix" where
  "infer_same gains m = Inr m"

definition example_external :: "int external" where
  "example_external =
     \<lparr>ext_Parse = Parse_two_classes, ext_ulong_bits = 64, ext_stod = stod_integer,
      ext_load_input = load_one_pixel, ext_load_label = load_two_ignored,
      ext_downscale = no_downscale, ext_annonet_infer = infer_same,
      ext_required_input_dimension = 64\<rparr>"

definition example_options :: options where
  "example_options =
     \<lparr>gain = [''0:1'', ''1'', ''1:2''], tile_max_width = 512, tile_max_height = 512,
      full_image_reader_thread_count = 4, result_image_writer_thread_count = 4\<rparr>"

text \<open>
  Two decoded samples of that directory, through the four-argument \<open>read_sample\<close>: one
  that was read and one that was not.
\<close>

definition read_sample_example :: decoded_sample where
  "read_sample_example =
     fst (read_sample_downscaling load_one_pixel load_two_ignored no_downscale unlabelled_file
            default_anno_classes False)"

definition unread_sample_example :: decoded_sample where
  "unread_sample_example =
     fst (read_sample_downscaling load_unreadable load_two_ignored no_downscale unlabelled_file
            default_anno_classes False)"

definition resize_to_first :: "uint8_t matrix \<Rightarrow> nat \<Rightarrow> nat \<Rightarrow> nat \<Rightarrow> nat \<Rightarrow> uint8_t" where
  "resize_to_first m rows cols r c = px m 0 0"

text \<open>
  A directory of images of two rows and two columns, and a downscaling that keeps every
  second row and column.
\<close>

definition four_pixel_image :: "uint8_t matrix" where
  "four_pixel_image = \<lparr>nr = 2, nc = 2, px = (\<lambda>r c. 7)\<rparr>"

definition load_four_pixels :: "uint8_t loader" where
  "load_four_pixels name = (four_pixel_image, None)"

definition halve :: "uint8_t matrix \<Rightarrow> uint8_t matrix" where
  "halve m = \<lparr>nr = nr m div 2, nc = nc m div 2, px = (\<lambda>r c. px m (2 * r) (2 * c))\<rparr>"

text \<open>
  A label image of one pixel of the colour \<open>(0,0,255,255)\<close>, which no built-in class has.
\<close>

definition unknown_pixel :: rgb_alpha_pixel where
  "unknown_pixel = \<lparr>red = 0, green = 0, blue = 255, alpha = 255\<rparr>"

definition load_unknown_label :: "rgb_alpha_pixel loader" where
  "load_unknown_label name = (\<lparr>nr = 1, nc = 1, px = (\<lambda>r c. unknown_pixel)\<rparr>, None)"

text \<open>The command line \<open>-g 65536:1\<close> with the default tile size and four threads each.\<close>

definition wrapped_index_options :: options where
  "wrapped_index_options =
     \<lparr>gain = [''65536:1''], tile_max_width = 512, tile_max_height = 512,
      full_image_reader_thread_count = 4, result_image_writer_thread_count = 4\<rparr>"

section \<open>Colours and class indices\<close>

lemma pixel_eq_iff: "pixel_eq a b \<longleftrightarrow> a = b"
  by (cases a, cases b) (auto simp: pixel_eq_def)

lemma find_class_distinct:
  "distinct (map rgba_label cs) \<Longrightarrow> j < length cs \<Longrightarrow>
     find_class (rgba_label (cs ! j)) cs = Some (index (cs ! j))"
proof (induction cs arbitrary: j)
  case Nil
  then show ?case by simp
next
  case (Cons c cs)
  show ?case
  proof (cases j)
    case 0
    then show ?thesis by (simp add: pixel_eq_iff)
  next
    case (Suc k)
    with Cons.prems have k: "k < length cs" and d: "distinct (map rgba_label cs)"
      and ne: "rgba_label c \<noteq> rgba_label (cs ! k)"
      by auto
    from Cons.IH [OF d k] Suc ne show ?thesis by (simp add: pixel_eq_iff)
  qed
qed

text \<open>
  Claim C10. In a class list whose colours are pairwise distinct and none of which is the
  reserved colour \<open>(0,0,0,0)\<close>, and whose element at position \<open>k\<close> has index \<open>k\<close>,
  every index \<open>i\<close> below the class count goes to a colour with
  \<open>index_label_to_rgba_label\<close> that \<open>rgba_label_to_index_label\<close> takes back to \<open>i\<close>.
\<close>

theorem index_rgba_index_roundtrip:
  assumes dense: "\<forall>k<length cs. unat (index (cs ! k)) = k"
    and dist: "distinct (map rgba_label cs)"
    and noign: "rgba_ignore_label \<notin> set (map rgba_label cs)"
    and i: "unat i < length cs"
  shows "\<exists>p. index_label_to_rgba_label i cs = Inr p \<and> rgba_label_to_index_label p cs = Inr i"
proof -
  from dense i have idx: "index (cs ! unat i) = i"
    by (simp add: word_unat_eq_iff)
  then have fwd: "index_label_to_rgba_label i cs = Inr (rgba_label (cs ! unat i))"
    using i by (simp add: index_label_to_rgba_label_def)
  from noign i have "rgba_label (cs ! unat i) \<noteq> rgba_ignore_label"
    by (metis length_map nth_map nth_mem)
  moreover from find_class_distinct [OF dist i] idx
  have "find_class (rgba_label (cs ! unat i)) cs = Some i" by simp
  ultimately have "rgba_label_to_index_label (rgba_label (cs ! unat i)) cs = Inr i"
    by (simp add: rgba_label_to_index_label_def pixel_eq_iff)
  with fwd show ?thesis by blast
qed

theorem index_rgba_index_roundtrip_witness:
  "unat (index (default_anno_classes ! 0)) = 0 \<and> unat (index (default_anno_classes ! 1)) = 1
   \<and> length default_anno_classes = 2
   \<and> distinct (map rgba_label default_anno_classes)
   \<and> rgba_ignore_label \<notin> set (map rgba_label default_anno_classes)
   \<and> unat (1 :: uint16_t) < length default_anno_classes
   \<and> index_label_to_rgba_label 1 default_anno_classes = Inr \<lparr>red = 255, green = 0, blue = 0, alpha = 128\<rparr>
   \<and> rgba_label_to_index_label \<lparr>red = 255, green = 0, blue = 0, alpha = 128\<rparr> default_anno_classes = Inr 1"
proof -
  have h1: "\<forall>k<length default_anno_classes. unat (index (default_anno_classes ! k)) = k"
    by (simp add: default_anno_classes_def less_Suc_eq)
  have h2: "distinct (map rgba_label default_anno_classes)"
    by (simp add: default_anno_classes_def)
  have h3: "rgba_ignore_label \<notin> set (map rgba_label default_anno_classes)"
    by (simp add: default_anno_classes_def rgba_ignore_label_def)
  have h4: "unat (1 :: uint16_t) < length default_anno_classes"
    by (simp add: default_anno_classes_def)
  have fwd: "index_label_to_rgba_label 1 default_anno_classes
      = Inr \<lparr>red = 255, green = 0, blue = 0, alpha = 128\<rparr>"
    by (simp add: index_label_to_rgba_label_def default_anno_classes_def)
  from index_rgba_index_roundtrip [OF h1 h2 h3 h4] fwd
  have bwd: "rgba_label_to_index_label \<lparr>red = 255, green = 0, blue = 0, alpha = 128\<rparr>
      default_anno_classes = Inr 1"
    by auto
  have "length default_anno_classes = 2" by (simp add: default_anno_classes_def)
  with h1 h2 h3 h4 fwd bwd show ?thesis by simp
qed

section \<open>Class definitions\<close>

text \<open>
  Claim C8. On an empty class-definition document \<open>parse_anno_classes\<close> returns the two
  built-in classes: exactly two, with index 0 and index 1, whose colours differ from each
  other and from the reserved colour.
\<close>

theorem empty_document_gives_builtin_classes:
  "parse_anno_classes Parse [] = Inr default_anno_classes
   \<and> length default_anno_classes = 2
   \<and> map index default_anno_classes = [0, 1]
   \<and> \<not> pixel_eq (rgba_label (default_anno_classes ! 0)) (rgba_label (default_anno_classes ! 1))
   \<and> \<not> pixel_eq (rgba_label (default_anno_classes ! 0)) rgba_ignore_label
   \<and> \<not> pixel_eq (rgba_label (default_anno_classes ! 1)) rgba_ignore_label"
  by (simp add: parse_anno_classes_def default_anno_classes_def pixel_eq_def rgba_ignore_label_def)

lemma exn_bind_simps [simp]:
  "exn_bind (Inl e) f = Inl e" "exn_bind (Inr x) f = f x"
  by (simp_all add: exn_bind_def)

lemma exn_bind_Inr_iff:
  "exn_bind m f = Inr y \<longleftrightarrow> (\<exists>x. m = Inr x \<and> f x = Inr y)"
  by (cases m) (simp_all add: exn_bind_def)

lemma parse_anno_class_Inr:
  assumes "parse_anno_class i e = Inr c"
  shows "index c = of_nat i \<and> rgba_label c \<noteq> rgba_ignore_label"
  using assms
  by (auto simp: parse_anno_class_def exn_bind_Inr_iff pixel_eq_iff split: if_splits)

lemma parse_anno_class_array_Inr:
  "parse_anno_class_array i es acc = Inr cs \<Longrightarrow>
     \<exists>cs'. cs = acc @ cs' \<and> length cs' = length es
       \<and> (\<forall>k<length es. index (cs' ! k) = of_nat (i + k) \<and> rgba_label (cs' ! k) \<noteq> rgba_ignore_label)"
proof (induction es arbitrary: i acc)
  case Nil
  then show ?case by simp
next
  case (Cons e es)
  from Cons.prems obtain c where c: "parse_anno_class i e = Inr c"
    and rest: "parse_anno_class_array (Suc i) es (acc @ [c]) = Inr cs"
    by (auto simp: exn_bind_Inr_iff)
  from Cons.IH [OF rest] obtain cs' where cs': "cs = (acc @ [c]) @ cs'" "length cs' = length es"
    and all: "\<forall>k<length es. index (cs' ! k) = of_nat (Suc i + k) \<and> rgba_label (cs' ! k) \<noteq> rgba_ignore_label"
    by blast
  have "\<forall>k<length (e # es). index ((c # cs') ! k) = of_nat (i + k) \<and> rgba_label ((c # cs') ! k) \<noteq> rgba_ignore_label"
  proof (intro allI impI)
    fix k assume k: "k < length (e # es)"
    show "index ((c # cs') ! k) = of_nat (i + k) \<and> rgba_label ((c # cs') ! k) \<noteq> rgba_ignore_label"
    proof (cases k)
      case 0
      with parse_anno_class_Inr [OF c] show ?thesis by simp
    next
      case (Suc j)
      with k all show ?thesis by simp
    qed
  qed
  with cs' show ?case by (intro exI [of _ "c # cs'"]) simp
qed


lemma parse_anno_classes_Inr_cases:
  assumes "parse_anno_classes Parse json_text = Inr cs"
  shows "cs = default_anno_classes \<or> (\<exists>entries. parse_anno_class_array 0 entries [] = Inr cs)"
  using assms
  by (auto simp: parse_anno_classes_def anno_classes_of_document_def
           split: if_splits option.splits json.splits)

lemma unat_of_nat_16: "k < 65536 \<Longrightarrow> unat (of_nat k :: uint16_t) = k"
  by (simp add: unat_of_nat)

lemma parse_class_entry: "parse_anno_class k class_entry = Inr (numbered_class k)"
  by (simp add: parse_anno_class_def class_entry_def find_color_components_def read_rgba_value_def
        make_rgb_alpha_pixel_def pixel_eq_def rgba_ignore_label_def numbered_class_def)

lemma parse_replicate_class_entry:
  "parse_anno_class_array i (replicate n class_entry) acc = Inr (acc @ map numbered_class [i ..< i + n])"
proof (induction n arbitrary: i acc)
  case 0
  then show ?case by simp
next
  case (Suc n)
  have "[i ..< i + Suc n] = i # [Suc i ..< Suc i + n]"
    by (simp add: upt_rec)
  with Suc.IH [of "Suc i" "acc @ [numbered_class i]"] show ?case
    by (simp add: parse_class_entry)
qed

lemma many_classes_text_nonempty: "many_classes_text \<noteq> []"
  by (simp add: many_classes_text_def)

text \<open>
  Claim C9, as the code has it. Of a class-definition input that \<open>parse_anno_classes\<close>
  accepts with at most 65535 classes, the class at every position \<open>k\<close> has index \<open>k\<close>;
  \<open>rgba_label_to_index_label\<close> maps the reserved colour \<open>(0,0,0,0)\<close> to the ignore
  sentinel; and the sentinel differs from the index of every class. The bound is needed: an
  index is a \<open>uint16_t\<close> and the sentinel is its largest value, so the class at position
  65535 of a longer list carries the sentinel as its index.
\<close>

theorem parsed_classes_dense_below_sentinel:
  assumes acc: "parse_anno_classes Parse json_text = Inr cs"
    and bound: "length cs \<le> 65535"
  shows "(\<forall>k<length cs. unat (index (cs ! k)) = k)
     \<and> rgba_label_to_index_label rgba_ignore_label cs = Inr label_to_ignore
     \<and> (\<forall>k<length cs. index (cs ! k) \<noteq> label_to_ignore)"
proof -
  have ign: "rgba_label_to_index_label rgba_ignore_label cs = Inr label_to_ignore"
    by (simp add: rgba_label_to_index_label_def pixel_eq_iff)
  have dense: "\<forall>k<length cs. unat (index (cs ! k)) = k"
  proof (intro allI impI)
    fix k assume k: "k < length cs"
    from parse_anno_classes_Inr_cases [OF acc]
    show "unat (index (cs ! k)) = k"
    proof
      assume "cs = default_anno_classes"
      with k show ?thesis by (auto simp: default_anno_classes_def less_Suc_eq)
    next
      assume "\<exists>entries. parse_anno_class_array 0 entries [] = Inr cs"
      then obtain entries where "parse_anno_class_array 0 entries [] = Inr cs" ..
      from parse_anno_class_array_Inr [OF this] k
      have "index (cs ! k) = of_nat k" by auto
      with k bound show ?thesis by (simp add: unat_of_nat_16)
    qed
  qed
  have "\<forall>k<length cs. index (cs ! k) \<noteq> label_to_ignore"
  proof (intro allI impI)
    fix k assume k: "k < length cs"
    with dense have "unat (index (cs ! k)) = k" by simp
    moreover have "unat label_to_ignore = 65535" by (simp add: label_to_ignore_def)
    ultimately show "index (cs ! k) \<noteq> label_to_ignore" using k bound by auto
  qed
  with ign dense show ?thesis by simp
qed

lemma two_classes_parsed:
  "parse_anno_classes Parse_two_classes two_classes_text = Inr [numbered_class 0, numbered_class 1]"
proof -
  have ne: "two_classes_text \<noteq> []" by (simp add: two_classes_text_def)
  show ?thesis
    by (simp add: parse_anno_classes_def ne Parse_two_classes_def anno_classes_of_document_def
          parse_class_entry)
qed

theorem parsed_classes_dense_below_sentinel_witness:
  "parse_anno_classes Parse_two_classes two_classes_text = Inr [numbered_class 0, numbered_class 1]
   \<and> length [numbered_class 0, numbered_class 1] \<le> 65535
   \<and> unat (index ([numbered_class 0, numbered_class 1] ! 0)) = 0
   \<and> unat (index ([numbered_class 0, numbered_class 1] ! 1)) = 1
   \<and> rgba_label_to_index_label rgba_ignore_label [numbered_class 0, numbered_class 1] = Inr label_to_ignore
   \<and> index ([numbered_class 0, numbered_class 1] ! 0) \<noteq> label_to_ignore
   \<and> index ([numbered_class 0, numbered_class 1] ! 1) \<noteq> label_to_ignore"
proof -
  have h2: "length [numbered_class 0, numbered_class 1] \<le> 65535" by simp
  from parsed_classes_dense_below_sentinel [OF two_classes_parsed h2]
  have dense: "\<forall>k<length [numbered_class 0, numbered_class 1].
          unat (index ([numbered_class 0, numbered_class 1] ! k)) = k"
    and ign: "rgba_label_to_index_label rgba_ignore_label [numbered_class 0, numbered_class 1]
          = Inr label_to_ignore"
    and ne: "\<forall>k<length [numbered_class 0, numbered_class 1].
          index ([numbered_class 0, numbered_class 1] ! k) \<noteq> label_to_ignore"
    by simp_all
  from dense [rule_format, of 0] dense [rule_format, of 1] ne [rule_format, of 0] ne [rule_format, of 1]
    ign two_classes_parsed
  show ?thesis by simp
qed

text \<open>
  Claim C9 as stated fails on the document with 65536 entries: it is accepted, and the
  class at position 65535 has the ignore sentinel as its index.
\<close>

theorem many_classes_index_meets_sentinel:
  "parse_anno_classes Parse_many_classes many_classes_text = Inr (map numbered_class [0 ..< 65536])
   \<and> length (map numbered_class [0 ..< 65536]) = 65536
   \<and> index (map numbered_class [0 ..< 65536] ! 65535) = label_to_ignore"
proof -
  have "parse_anno_classes Parse_many_classes many_classes_text
        = parse_anno_class_array 0 (replicate 65536 class_entry) []"
    by (simp add: parse_anno_classes_def many_classes_text_nonempty Parse_many_classes_def
          anno_classes_of_document_def many_classes_document_def)
  also have "\<dots> = Inr (map numbered_class [0 ..< 65536])"
    using parse_replicate_class_entry [of 0 65536 "[]"] by simp
  finally have a: "parse_anno_classes Parse_many_classes many_classes_text = Inr (map numbered_class [0 ..< 65536])" .
  have b: "map numbered_class [0 ..< 65536] ! 65535 = numbered_class 65535"
    by (subst nth_map) simp_all
  show ?thesis
    by (simp only: a b) (simp add: numbered_class_def label_to_ignore_def)
qed

lemma is_color_componentE:
  assumes "is_color_component m"
  obtains v where "m = Some (JInt v)" "0 \<le> v" "v \<le> 255"
  using assms by (auto elim: is_color_component.elims)

lemma GetInt_component: "0 \<le> v \<Longrightarrow> v \<le> 255 \<Longrightarrow> GetInt (JInt v) = Inr v"
  by simp

lemma parse_class_entry_shape:
  assumes "is_class_entry x"
  shows "parse_anno_class i x = Inl (Runtime_error reserved_color_message) \<or> (\<exists>c. parse_anno_class i x = Inr c)"
proof -
  from assms obtain members where x: "x = JObject members"
    and n: "is_name (map_of members ''name'')" and c: "is_color (map_of members ''color'')"
    by (auto elim: is_class_entry.elims)
  from n obtain name where name: "map_of members ''name'' = Some (JString name)"
    by (auto elim: is_name.elims)
  from c obtain comps where comps: "map_of members ''color'' = Some (JObject comps)"
    and r: "is_color_component (map_of comps ''red'')" and g: "is_color_component (map_of comps ''green'')"
    and b: "is_color_component (map_of comps ''blue'')" and a: "is_color_component (map_of comps ''alpha'')"
    by (auto elim: is_color.elims)
  from r obtain rv where rv: "map_of comps ''red'' = Some (JInt rv)" "0 \<le> rv" "rv \<le> 255"
    by (rule is_color_componentE)
  from g obtain gv where gv: "map_of comps ''green'' = Some (JInt gv)" "0 \<le> gv" "gv \<le> 255"
    by (rule is_color_componentE)
  from b obtain bv where bv: "map_of comps ''blue'' = Some (JInt bv)" "0 \<le> bv" "bv \<le> 255"
    by (rule is_color_componentE)
  from a obtain av where av: "map_of comps ''alpha'' = Some (JInt av)" "0 \<le> av" "av \<le> 255"
    by (rule is_color_componentE)
  have fc: "find_color_components (JObject comps) = Inr (JInt rv, JInt gv, JInt bv, JInt av)"
    by (simp add: find_color_components_def rv gv bv av)
  have rd: "read_rgba_value (JInt rv, JInt gv, JInt bv, JInt av) = Inr (make_rgb_alpha_pixel rv gv bv av)"
    using rv gv bv av by (simp add: read_rgba_value_def)
  show ?thesis
    by (simp add: parse_anno_class_def x name comps fc rd)
qed

lemma parse_reserved_entry:
  assumes "has_reserved_color e"
  shows "parse_anno_class i e = Inl (Runtime_error reserved_color_message)
     \<or> (FindMember e ''name'' = Inr None \<and> parse_anno_class i e = Inl (Runtime_error no_name_message))"
proof -
  from assms obtain members where e: "e = JObject members"
    and c: "is_reserved_color (map_of members ''color'')"
    by (auto elim: has_reserved_color.elims)
  from c obtain comps where comps: "map_of members ''color'' = Some (JObject comps)"
    and v: "map_of comps ''red'' = Some (JInt 0)" "map_of comps ''green'' = Some (JInt 0)"
      "map_of comps ''blue'' = Some (JInt 0)" "map_of comps ''alpha'' = Some (JInt 0)"
    by (auto elim: is_reserved_color.elims)
  have fc: "find_color_components (JObject comps) = Inr (JInt 0, JInt 0, JInt 0, JInt 0)"
    by (simp add: find_color_components_def v)
  have rd: "read_rgba_value (JInt 0, JInt 0, JInt 0, JInt 0) = Inr rgba_ignore_label"
    by (simp add: read_rgba_value_def make_rgb_alpha_pixel_def rgba_ignore_label_def)
  show ?thesis
    by (cases "map_of members ''name''") (simp_all add: parse_anno_class_def e comps fc rd pixel_eq_iff)
qed

lemma parse_array_reserved:
  assumes "\<forall>x\<in>set pre. is_class_entry x" and "has_reserved_color e"
  shows "parse_anno_class_array i (pre @ e # post) acc = Inl (Runtime_error reserved_color_message)
     \<or> (FindMember e ''name'' = Inr None
        \<and> parse_anno_class_array i (pre @ e # post) acc = Inl (Runtime_error no_name_message))"
  using assms
proof (induction pre arbitrary: i acc)
  case Nil
  from parse_reserved_entry [OF Nil(2), of i] show ?case by auto
next
  case (Cons x pre)
  from Cons.prems have "is_class_entry x" by simp
  from parse_class_entry_shape [OF this, of i] show ?case
  proof
    assume "parse_anno_class i x = Inl (Runtime_error reserved_color_message)"
    then show ?thesis by simp
  next
    assume "\<exists>c. parse_anno_class i x = Inr c"
    then obtain c where c: "parse_anno_class i x = Inr c" ..
    from Cons.prems have "\<forall>x\<in>set pre. is_class_entry x" by simp
    from Cons.IH [OF this Cons.prems(2), of "Suc i" "acc @ [c]"] c show ?thesis by simp
  qed
qed

text \<open>
  Claim C7. For a class-definition document whose \<open>anno_classes\<close> array holds an entry with
  the reserved colour \<open>(0,0,0,0)\<close>, after entries that have the shape of the schema,
  \<open>parse_anno_classes\<close> throws a \<open>std::runtime_error\<close>: the one that says the colour is
  reserved or, when the entry has no name, the one that says so.
\<close>

theorem reserved_color_rejected:
  assumes ne: "json_text \<noteq> []"
    and doc: "Parse json_text = Some (JObject members)"
    and arr: "map_of members ''anno_classes'' = Some (JArray (pre @ e # post))"
    and pre: "\<forall>x\<in>set pre. is_class_entry x"
    and e: "has_reserved_color e"
  shows "parse_anno_classes Parse json_text = Inl (Runtime_error reserved_color_message)
     \<or> (FindMember e ''name'' = Inr None
        \<and> parse_anno_classes Parse json_text = Inl (Runtime_error no_name_message))"
proof -
  have "parse_anno_classes Parse json_text = parse_anno_class_array 0 (pre @ e # post) []"
    using ne doc arr by (simp add: parse_anno_classes_def anno_classes_of_document_def)
  with parse_array_reserved [OF pre e, of 0 post "[]"] show ?thesis by simp
qed

theorem reserved_color_rejected_witness:
  "reserved_text \<noteq> []
   \<and> Parse_reserved reserved_text = Some (JObject [(''anno_classes'', JArray [class_entry, reserved_entry])])
   \<and> is_class_entry class_entry
   \<and> has_reserved_color reserved_entry
   \<and> parse_anno_classes Parse_reserved reserved_text = Inl (Runtime_error reserved_color_message)"
proof -
  have h1: "reserved_text \<noteq> []" by (simp add: reserved_text_def)
  have h2: "Parse_reserved reserved_text = Some (JObject [(''anno_classes'', JArray [class_entry, reserved_entry])])"
    by (simp add: Parse_reserved_def)
  have h3: "map_of [(''anno_classes'', JArray [class_entry, reserved_entry])] ''anno_classes''
        = Some (JArray ([class_entry] @ reserved_entry # []))" by simp
  have c: "is_class_entry class_entry" by (simp add: class_entry_def)
  then have h4: "\<forall>x\<in>set [class_entry]. is_class_entry x" by simp
  have h5: "has_reserved_color reserved_entry" by (simp add: reserved_entry_def)
  have n: "FindMember reserved_entry ''name'' \<noteq> Inr None" by (simp add: reserved_entry_def)
  from reserved_color_rejected [where Parse = Parse_reserved and json_text = reserved_text
      and pre = "[class_entry]" and e = reserved_entry and post = "[]", OF h1 h2 h3 h4 h5] n
  have "parse_anno_classes Parse_reserved reserved_text = Inl (Runtime_error reserved_color_message)"
    by blast
  with h1 h2 c h5 show ?thesis by simp
qed

section \<open>Class-specific gains\<close>

lemma find_char_Some:
  "find_char c s = Some p \<Longrightarrow> p < length s \<and> s ! p = c"
  by (induction s arbitrary: p) (auto split: if_splits)

lemma no_separating_colon:
  assumes "\<not> has_separating_colon s"
  shows "parse_class_specific_value w stod s = Inl (Runtime_error gain_format_message)"
proof (cases "find_char CHR '':'' s")
  case None
  then show ?thesis by (simp add: parse_class_specific_value_def)
next
  case (Some p)
  from find_char_Some [OF Some] have p: "p < length s" "s ! p = CHR '':''" by simp_all
  have "p < 1 \<or> p \<ge> length s - 1"
  proof (rule ccontr)
    assume "\<not> (p < 1 \<or> p \<ge> length s - 1)"
    then have "p \<in> set [1 ..< length s - 1]" by simp
    with p have "has_separating_colon s"
      unfolding has_separating_colon_def list_ex_iff by blast
    with assms show False by simp
  qed
  with Some show ?thesis by (simp add: parse_class_specific_value_def)
qed

lemma assign_append:
  "assign_class_specific_values w stod n (xs @ ys) vs
     = exn_bind (assign_class_specific_values w stod n xs vs) (assign_class_specific_values w stod n ys)"
proof (induction xs arbitrary: vs)
  case Nil
  then show ?case by simp
next
  case (Cons x xs)
  show ?case
  proof (cases "parse_class_specific_value w stod x")
    case (Inl e)
    then show ?thesis by simp
  next
    case (Inr cv)
    with Cons.IH show ?thesis by simp
  qed
qed

lemma spec_index_Some:
  "spec_index w stod s = Some i \<longleftrightarrow>
     (\<exists>cv. parse_class_specific_value w stod s = Inr cv \<and> unat (class_index cv) = i)"
  by (auto simp: spec_index_def split: sum.splits)

lemma spec_value_Some:
  "parse_class_specific_value w stod s = Inr cv \<Longrightarrow> spec_value w stod s = Some (cs_value cv)"
  by (simp add: spec_value_def)

lemma assign_well_formed:
  fixes vs0 :: "'v list"
  assumes "\<forall>s\<in>set strs. \<exists>i. spec_index w stod s = Some i \<and> i < unat n"
    and "length vs0 = unat n"
  shows "\<exists>vs. assign_class_specific_values w stod n strs vs0 = Inr vs \<and> length vs = unat n
     \<and> (\<forall>p<length strs. \<forall>i. spec_index w stod (strs ! p) = Some i \<longrightarrow>
            (\<forall>q<length strs. p < q \<longrightarrow> spec_index w stod (strs ! q) \<noteq> Some i) \<longrightarrow>
            Some (vs ! i) = spec_value w stod (strs ! p))
     \<and> (\<forall>j<unat n. (\<forall>s\<in>set strs. spec_index w stod s \<noteq> Some j) \<longrightarrow> vs ! j = vs0 ! j)"
  using assms(1)
proof (induction strs rule: rev_induct)
  case Nil
  with assms(2) show ?case by simp
next
  case (snoc s strs)
  from snoc.prems have wf: "\<forall>t\<in>set strs. \<exists>i. spec_index w stod t = Some i \<and> i < unat n"
    by simp
  from snoc.IH [OF wf] obtain vs where
    vs: "assign_class_specific_values w stod n strs vs0 = Inr vs" and len: "length vs = unat n"
    and lastv: "\<forall>p<length strs. \<forall>i. spec_index w stod (strs ! p) = Some i \<longrightarrow>
            (\<forall>q<length strs. p < q \<longrightarrow> spec_index w stod (strs ! q) \<noteq> Some i) \<longrightarrow>
            Some (vs ! i) = spec_value w stod (strs ! p)"
    and unnamed: "\<forall>j<unat n. (\<forall>t\<in>set strs. spec_index w stod t \<noteq> Some j) \<longrightarrow> vs ! j = vs0 ! j"
    by blast
  from snoc.prems obtain cv where cv: "parse_class_specific_value w stod s = Inr cv"
    and lt: "unat (class_index cv) < unat n"
    by (auto simp: spec_index_Some)
  let ?i = "unat (class_index cv)"
  let ?vs = "vs[?i := cs_value cv]"
  from lt have nge: "\<not> n \<le> class_index cv" by (simp add: word_le_nat_alt)
  have res: "assign_class_specific_values w stod n (strs @ [s]) vs0 = Inr ?vs"
    by (simp add: assign_append vs cv nge)
  have si: "spec_index w stod s = Some ?i" using cv by (simp add: spec_index_def)
  have a: "\<forall>p<length (strs @ [s]). \<forall>i. spec_index w stod ((strs @ [s]) ! p) = Some i \<longrightarrow>
            (\<forall>q<length (strs @ [s]). p < q \<longrightarrow> spec_index w stod ((strs @ [s]) ! q) \<noteq> Some i) \<longrightarrow>
            Some (?vs ! i) = spec_value w stod ((strs @ [s]) ! p)"
  proof (intro allI impI)
    fix p i
    assume p: "p < length (strs @ [s])"
      and i: "spec_index w stod ((strs @ [s]) ! p) = Some i"
      and later: "\<forall>q<length (strs @ [s]). p < q \<longrightarrow> spec_index w stod ((strs @ [s]) ! q) \<noteq> Some i"
    show "Some (?vs ! i) = spec_value w stod ((strs @ [s]) ! p)"
    proof (cases "p < length strs")
      case True
      from later [rule_format, of "length strs"] True si have ne: "i \<noteq> ?i" by auto
      from i True have i': "spec_index w stod (strs ! p) = Some i" by (simp add: nth_append)
      have "\<forall>q<length strs. p < q \<longrightarrow> spec_index w stod (strs ! q) \<noteq> Some i"
      proof (intro allI impI)
        fix q assume q: "q < length strs" "p < q"
        with later [rule_format, of q] show "spec_index w stod (strs ! q) \<noteq> Some i"
          by (simp add: nth_append)
      qed
      with lastv True i' have "Some (vs ! i) = spec_value w stod (strs ! p)" by blast
      with ne True show ?thesis by (simp add: nth_append)
    next
      case False
      with p have pe: "p = length strs" by simp
      with i si have "i = ?i" by simp
      with pe lt len show ?thesis by (simp add: spec_value_Some [OF cv])
    qed
  qed
  have b: "\<forall>j<unat n. (\<forall>t\<in>set (strs @ [s]). spec_index w stod t \<noteq> Some j) \<longrightarrow> ?vs ! j = vs0 ! j"
  proof (intro allI impI)
    fix j assume j: "j < unat n" and none: "\<forall>t\<in>set (strs @ [s]). spec_index w stod t \<noteq> Some j"
    from none si have "j \<noteq> ?i" by auto
    moreover from none unnamed j have "vs ! j = vs0 ! j" by simp
    ultimately show "?vs ! j = vs0 ! j" by simp
  qed
  from res len a b show ?case by simp
qed

text \<open>
  Claim C5, as the code has it. For a class count \<open>n\<close> and a list of well-formed gain
  specifications whose indices are all less than \<open>n\<close>, \<open>parse_class_specific_values\<close>
  returns a vector of exactly \<open>n\<close> entries; an index named by some specification holds
  the value of the last specification that names it, and an index that no specification
  names holds zero.
\<close>

theorem gains_vector:
  fixes stod :: "string \<Rightarrow> exn + 'v::zero"
  assumes "\<forall>s\<in>set strs. \<exists>i. spec_index w stod s = Some i \<and> i < unat n"
  shows "\<exists>vs. parse_class_specific_values w stod strs n = Inr vs \<and> length vs = unat n
     \<and> (\<forall>p<length strs. \<forall>i. spec_index w stod (strs ! p) = Some i \<longrightarrow>
            (\<forall>q<length strs. p < q \<longrightarrow> spec_index w stod (strs ! q) \<noteq> Some i) \<longrightarrow>
            Some (vs ! i) = spec_value w stod (strs ! p))
     \<and> (\<forall>j<unat n. (\<forall>s\<in>set strs. spec_index w stod s \<noteq> Some j) \<longrightarrow> vs ! j = 0)"
proof -
  have len: "length (replicate (unat n) (0::'v)) = unat n" by simp
  from assign_well_formed [OF assms len] obtain vs where
    r: "assign_class_specific_values w stod n strs (replicate (unat n) 0) = Inr vs" "length vs = unat n"
    and a: "\<forall>p<length strs. \<forall>i. spec_index w stod (strs ! p) = Some i \<longrightarrow>
            (\<forall>q<length strs. p < q \<longrightarrow> spec_index w stod (strs ! q) \<noteq> Some i) \<longrightarrow>
            Some (vs ! i) = spec_value w stod (strs ! p)"
    and b: "\<forall>j<unat n. (\<forall>s\<in>set strs. spec_index w stod s \<noteq> Some j) \<longrightarrow> vs ! j = replicate (unat n) 0 ! j"
    by blast
  from b have "\<forall>j<unat n. (\<forall>s\<in>set strs. spec_index w stod s \<noteq> Some j) \<longrightarrow> vs ! j = 0"
    by simp
  with r a show ?thesis by (simp add: parse_class_specific_values_def)
qed

lemmas ev = parse_class_specific_value_def stoul_def stod_integer_def isspace_def isdigit_def
       decimal_value_def digit_value_def parse_class_specific_values_def


theorem gains_vector_witness:
  "spec_index 64 stod_integer ''0:1'' = Some 0 \<and> spec_index 64 stod_integer ''1:2'' = Some 1
   \<and> spec_index 64 stod_integer ''0:3'' = Some 0 \<and> unat (2 :: uint16_t) = 2
   \<and> parse_class_specific_values 64 stod_integer [''0:1'', ''1:2'', ''0:3''] 2 = Inr [3, 2]"
proof -
  have p1: "parse_class_specific_value 64 stod_integer ''0:1'' = Inr \<lparr>class_index = 0, cs_value = 1\<rparr>"
    by (simp add: ev)
  have p2: "parse_class_specific_value 64 stod_integer ''1:2'' = Inr \<lparr>class_index = 1, cs_value = 2\<rparr>"
    by (simp add: ev)
  have p3: "parse_class_specific_value 64 stod_integer ''0:3'' = Inr \<lparr>class_index = 0, cs_value = 3\<rparr>"
    by (simp add: ev)
  have i: "spec_index 64 stod_integer ''0:1'' = Some 0" "spec_index 64 stod_integer ''1:2'' = Some 1"
    "spec_index 64 stod_integer ''0:3'' = Some 0"
    by (simp_all add: spec_index_def p1 p2 p3)
  have h: "\<forall>s\<in>set [''0:1'', ''1:2'', ''0:3'']. \<exists>i. spec_index 64 stod_integer s = Some i \<and> i < unat (2 :: uint16_t)"
    by (simp add: i)
  have rep: "replicate 2 (0 :: int) = [0, 0]"
    by (simp add: numeral_2_eq_2)
  have r: "parse_class_specific_values 64 stod_integer [''0:1'', ''1:2'', ''0:3''] 2 = Inr [3, 2]"
    by (simp add: parse_class_specific_values_def rep p1 p2 p3 word_le_nat_alt)
  from gains_vector [OF h] i r show ?thesis by simp
qed


text \<open>
  Claim C5 as stated fails when two specifications name the same index: both \<open>0:1\<close> and
  \<open>0:2\<close> are well-formed and name index 0, and the vector holds 2 there, not the 1 of the
  first.
\<close>

theorem repeated_index_keeps_last_value: "parse_class_specific_values 64 stod_integer [''0:1'', ''0:2''] 1 = Inr [2]
  \<and> parse_class_specific_value 64 stod_integer ''0:1'' = Inr \<lparr>class_index = 0, cs_value = 1\<rparr>
  \<and> parse_class_specific_value 64 stod_integer ''0:2'' = Inr \<lparr>class_index = 0, cs_value = 2\<rparr>"
  by (simp add: ev)
lemma bad_gain_step:
  assumes bad: "\<not> has_separating_colon s \<or> (\<exists>i. spec_index w stod s = Some i \<and> unat n \<le> i)"
  shows "assign_class_specific_values w stod n (s # post) vs
     = Inl (Runtime_error (if has_separating_colon s
                            then index_message (of_nat (the (spec_index w stod s))) n
                            else gain_format_message))"
proof (cases "has_separating_colon s")
  case False
  from no_separating_colon [OF False, of w stod] False show ?thesis by simp
next
  case True
  with bad obtain i where i: "spec_index w stod s = Some i" "unat n \<le> i" by blast
  then obtain cv where cv: "parse_class_specific_value w stod s = Inr cv" "unat (class_index cv) = i"
    by (auto simp: spec_index_Some)
  with i have ge: "n \<le> class_index cv" by (simp add: word_le_nat_alt)
  from cv i have "of_nat (the (spec_index w stod s)) = class_index cv" by auto
  with True cv ge show ?thesis by simp
qed

lemma gains_fail_general:
  fixes stod :: "string \<Rightarrow> exn + 'v::zero"
  assumes bad: "\<not> has_separating_colon s \<or> (\<exists>i. spec_index w stod s = Some i \<and> unat n \<le> i)"
  shows "\<exists>e. parse_class_specific_values w stod (pre @ s # post) n = Inl e
     \<and> ((\<forall>t\<in>set pre. \<exists>i. spec_index w stod t = Some i \<and> i < unat n) \<longrightarrow>
          e = Runtime_error (if has_separating_colon s
                             then index_message (of_nat (the (spec_index w stod s))) n
                             else gain_format_message))"
proof -
  let ?msg = "if has_separating_colon s then index_message (of_nat (the (spec_index w stod s))) n
              else gain_format_message"
  let ?v0 = "replicate (unat n) (0::'v)"
  have split: "parse_class_specific_values w stod (pre @ s # post) n
      = exn_bind (assign_class_specific_values w stod n pre ?v0)
          (assign_class_specific_values w stod n (s # post))"
    by (simp add: parse_class_specific_values_def assign_append)
  show ?thesis
  proof (cases "assign_class_specific_values w stod n pre ?v0")
    case (Inl e)
    have nwf: "\<not> (\<forall>t\<in>set pre. \<exists>i. spec_index w stod t = Some i \<and> i < unat n)"
    proof
      assume wf: "\<forall>t\<in>set pre. \<exists>i. spec_index w stod t = Some i \<and> i < unat n"
      have "length ?v0 = unat n" by simp
      from assign_well_formed [OF wf this] Inl show False by auto
    qed
    from Inl split have "parse_class_specific_values w stod (pre @ s # post) n = Inl e" by simp
    with nwf show ?thesis by blast
  next
    case (Inr vs)
    with split bad_gain_step [OF bad, of post vs] show ?thesis by simp
  qed
qed

text \<open>
  What the gain parser does reject. In \<open>main\<close>, once the classes are read, a gain string
  without a colon between a non-empty index part and a non-empty value part, or one whose
  index as stored in \<open>class_index\<close> is not below the class count, makes
  \<open>parse_class_specific_values\<close> throw; \<open>main\<close> ends with that exception having started
  no worker thread and queued nothing. When the strings before it are well-formed with
  indices below the class count, the exception is the \<open>std::runtime_error\<close> that
  describes the fault: the required format, or the index and the class count.
\<close>

theorem gains_fail_before_workers:
  fixes ext :: "('v::zero) external"
  assumes classes: "parse_anno_classes (ext_Parse ext) json = Inr cs" and two: "2 \<le> length cs"
    and gains: "gain opts = pre @ s # post"
    and bad: "\<not> has_separating_colon s
       \<or> (\<exists>i. spec_index (ext_ulong_bits ext) (ext_stod ext) s = Some i
              \<and> unat (of_nat (length cs) :: uint16_t) \<le> i)"
  shows "\<exists>e. parse_class_specific_values (ext_ulong_bits ext) (ext_stod ext) (gain opts)
                (of_nat (length cs)) = Inl e
     \<and> main ext json opts files
         = \<lparr>worker_threads_started = 0, write_requests = [], thrown = Some e\<rparr>
     \<and> ((\<forall>t\<in>set pre. \<exists>i. spec_index (ext_ulong_bits ext) (ext_stod ext) t = Some i
                           \<and> i < unat (of_nat (length cs) :: uint16_t)) \<longrightarrow>
          e = Runtime_error
                (if has_separating_colon s
                 then index_message (of_nat (the (spec_index (ext_ulong_bits ext) (ext_stod ext) s)))
                        (of_nat (length cs))
                 else gain_format_message))"
proof -
  from gains_fail_general [OF bad, of pre post] gains obtain e where
    e: "parse_class_specific_values (ext_ulong_bits ext) (ext_stod ext) (gain opts)
          (of_nat (length cs)) = Inl e"
    and d: "(\<forall>t\<in>set pre. \<exists>i. spec_index (ext_ulong_bits ext) (ext_stod ext) t = Some i
                           \<and> i < unat (of_nat (length cs) :: uint16_t)) \<longrightarrow>
          e = Runtime_error
                (if has_separating_colon s
                 then index_message (of_nat (the (spec_index (ext_ulong_bits ext) (ext_stod ext) s)))
                        (of_nat (length cs))
                 else gain_format_message)"
    by auto
  from classes two e
  have "main ext json opts files
         = \<lparr>worker_threads_started = 0, write_requests = [], thrown = Some e\<rparr>"
    by (simp add: main_def)
  with e d show ?thesis by blast
qed

theorem gains_fail_before_workers_witness:
  "parse_anno_classes (ext_Parse example_external) two_classes_text = Inr [numbered_class 0, numbered_class 1]
   \<and> 2 \<le> length [numbered_class 0, numbered_class 1]
   \<and> gain example_options = [''0:1''] @ ''1'' # [''1:2'']
   \<and> \<not> has_separating_colon ''1''
   \<and> spec_index 64 stod_integer ''0:1'' = Some 0
   \<and> main example_external two_classes_text example_options [unlabelled_file]
       = \<lparr>worker_threads_started = 0, write_requests = [], thrown = Some (Runtime_error gain_format_message)\<rparr>"
proof -
  have h1: "parse_anno_classes (ext_Parse example_external) two_classes_text
      = Inr [numbered_class 0, numbered_class 1]"
    by (simp add: example_external_def two_classes_parsed)
  have h2: "2 \<le> length [numbered_class 0, numbered_class 1]" by simp
  have g: "gain example_options = [''0:1''] @ ''1'' # [''1:2'']"
    by (simp add: example_options_def)
  have h3: "\<not> has_separating_colon ''1''" by (simp add: has_separating_colon_def)
  then have h3': "\<not> has_separating_colon ''1''
       \<or> (\<exists>i. spec_index (ext_ulong_bits example_external) (ext_stod example_external) ''1'' = Some i
              \<and> unat (of_nat (length [numbered_class 0, numbered_class 1]) :: uint16_t) \<le> i)" ..
  have i: "spec_index 64 stod_integer ''0:1'' = Some 0"
    by (simp add: spec_index_def ev)
  have pre: "\<forall>t\<in>set [''0:1'']. \<exists>i. spec_index (ext_ulong_bits example_external) (ext_stod example_external) t = Some i
                           \<and> i < unat (of_nat (length [numbered_class 0, numbered_class 1]) :: uint16_t)"
    by (simp add: example_external_def i)
  from gains_fail_before_workers [where files = "[unlabelled_file]", OF h1 h2 g h3'] pre h3
  have "main example_external two_classes_text example_options [unlabelled_file]
       = \<lparr>worker_threads_started = 0, write_requests = [], thrown = Some (Runtime_error gain_format_message)\<rparr>"
    by auto
  with h1 h2 g h3 i show ?thesis by simp
qed

lemma two_zero_gains: "replicate 2 (0 :: int) = [0, 0]"
  by (simp add: numeral_2_eq_2)

text \<open>
  Claim C6 fails on the code. The index is read by \<open>std::stoul\<close> and stored in the
  \<open>uint16_t\<close> field \<open>class_index\<close> before it is compared with the class count, so only
  its low 16 bits are compared. With two classes, the gain \<open>65536:1\<close> has a separating
  colon and its index 65536 is not below the class count, yet it is stored as index 0:
  \<open>parse_class_specific_values\<close> returns the gains \<open>[1, 0]\<close> without an error, and
  \<open>main\<close> goes on to start its eight worker threads and to process the image.
\<close>

theorem index_written_beyond_uint16_is_accepted:
  "has_separating_colon ''65536:1''
   \<and> stoul 64 ''65536'' = Inr 65536
   \<and> parse_anno_classes (ext_Parse example_external) two_classes_text
       = Inr [numbered_class 0, numbered_class 1]
   \<and> parse_class_specific_value 64 stod_integer ''65536:1'' = Inr \<lparr>class_index = 0, cs_value = 1\<rparr>
   \<and> parse_class_specific_values 64 stod_integer [''65536:1''] 2 = Inr [1, 0]
   \<and> main example_external two_classes_text wrapped_index_options [unlabelled_file]
       = \<lparr>worker_threads_started = 8,
          write_requests = [\<lparr>filename = ''b.png_probability_map.png'', result_width = 1,
                             result_height = 1, probability_image = one_pixel_image\<rparr>],
          thrown = None\<rparr>"
proof -
  have c: "has_separating_colon ''65536:1''"
    by (simp add: has_separating_colon_def)
  have s: "stoul 64 ''65536'' = Inr 65536"
    by (simp add: ev)
  have a: "parse_anno_classes (ext_Parse example_external) two_classes_text
       = Inr [numbered_class 0, numbered_class 1]"
    by (simp add: example_external_def two_classes_parsed)
  have p: "parse_class_specific_value 64 stod_integer ''65536:1'' = Inr \<lparr>class_index = 0, cs_value = 1\<rparr>"
    by (simp add: ev)
  have g: "parse_class_specific_values 64 stod_integer [''65536:1''] 2 = Inr [1, 0]"
    by (simp add: parse_class_specific_values_def p two_zero_gains word_le_nat_alt)
  have r: "\<And>cs. fst (read_sample_downscaling load_one_pixel load_two_ignored no_downscale
             \<lparr>image_filename = ''b.png'', label_filename = []\<rparr> cs False)
      = \<lparr>image_filenames = \<lparr>image_filename = ''b.png'', label_filename = []\<rparr>,
         input_image = one_pixel_image,
         label_image = empty_matrix None, labeled_points_by_class = Map.empty, error = [],
         original_width = 1, original_height = 1\<rparr>"
    by (simp add: read_sample_downscaling_def read_sample_def read_sample_try_def
          catch_into_error_def load_one_pixel_def new_sample_def
          no_downscale_def one_pixel_image_def Let_def)
  have m: "main example_external two_classes_text wrapped_index_options [unlabelled_file]
       = \<lparr>worker_threads_started = 8,
          write_requests = [\<lparr>filename = ''b.png_probability_map.png'', result_width = 1,
                             result_height = 1, probability_image = one_pixel_image\<rparr>],
          thrown = None\<rparr>"
    using a g
    by (simp add: main_def example_external_def wrapped_index_options_def workers_def r
          infer_same_def unlabelled_file_def)
  from c s a p g m show ?thesis by simp
qed

section \<open>Reading a sample\<close>

lemma for_each_invariant:
  assumes step: "\<And>i s. P s \<Longrightarrow> P (fst (body i s)) \<and> (\<forall>e. snd (body i s) = Some e \<longrightarrow> Q e)"
    and init: "P s"
  shows "P (fst (for_each xs body s)) \<and> (\<forall>e. snd (for_each xs body s) = Some e \<longrightarrow> Q e)"
  using init
proof (induction xs arbitrary: s)
  case Nil
  then show ?case by simp
next
  case (Cons i xs)
  obtain s' x where b: "body i s = (s', x)" by (cases "body i s")
  from step [OF Cons.prems, of i] b have s': "P s'" and x: "\<forall>e. x = Some e \<longrightarrow> Q e" by simp_all
  show ?case
  proof (cases x)
    case None
    with b Cons.IH [OF s'] show ?thesis by simp
  next
    case (Some e)
    with b s' x show ?thesis by simp
  qed
qed

lemma decode_pixel_kept:
  assumes "kept img f err s"
  shows "kept img f err (fst (decode_pixel lbl cs r c s))
     \<and> (\<forall>e. snd (decode_pixel lbl cs r c s) = Some e \<longrightarrow> is_std_exception e)"
  using assms
  by (auto simp: decode_pixel_def kept_def rgba_label_to_index_label_def Let_def
           split: sum.splits if_splits option.splits)

lemma decode_kept:
  assumes "kept img f err s"
  shows "kept img f err (fst (decode_rgba_label_image lbl s cs))
     \<and> (\<forall>e. snd (decode_rgba_label_image lbl s cs) = Some e \<longrightarrow> is_std_exception e)"
proof -
  have row: "\<And>r s'. kept img f err s' \<Longrightarrow>
      kept img f err (fst (for_each [0 ..< nc lbl] (decode_pixel lbl cs r) s'))
      \<and> (\<forall>e. snd (for_each [0 ..< nc lbl] (decode_pixel lbl cs r) s') = Some e \<longrightarrow> is_std_exception e)"
    by (rule for_each_invariant [where P = "kept img f err" and Q = is_std_exception])
       (rule decode_pixel_kept, assumption+)
  from assms have init: "kept img f err
     (s\<lparr>label_image := \<lparr>nr = nr lbl, nc = nc lbl, px = \<lambda>r c. None\<rparr>, labeled_points_by_class := Map.empty\<rparr>)"
    by (simp add: kept_def)
  show ?thesis
    unfolding decode_rgba_label_image_def
    by (rule for_each_invariant [where P = "kept img f err" and Q = is_std_exception])
       (rule row, assumption, rule init)
qed

lemma read_sample_try_facts:
  assumes "image_filenames s = f" and "error s = []"
  shows "input_image (fst (read_sample_try li ll f cs rgt s)) = fst (li (image_filename f))
     \<and> image_filenames (fst (read_sample_try li ll f cs rgt s)) = f
     \<and> (\<forall>e. snd (read_sample_try li ll f cs rgt s) = Some e \<longrightarrow> is_std_exception e)"
proof -
  obtain img x where li: "li (image_filename f) = (img, x)" by (cases "li (image_filename f)")
  obtain lbl y where ll: "ll (label_filename f) = (lbl, y)" by (cases "ll (label_filename f)")
  have k: "kept img f [] (s\<lparr>input_image := img\<rparr>)" using assms by (simp add: kept_def)
  note d = decode_kept [OF k, of lbl cs]
  show ?thesis
  proof (cases x)
    case (Some m)
    with li assms show ?thesis by (simp add: read_sample_try_def Let_def)
  next
    case None
    show ?thesis
    proof (cases "label_filename f \<noteq> []")
      case False
      with None li assms show ?thesis by (simp add: read_sample_try_def Let_def)
    next
      case True
      show ?thesis
      proof (cases y)
        case (Some m)
        with True None li ll assms show ?thesis by (simp add: read_sample_try_def Let_def)
      next
        case None' : None
        show ?thesis
        proof (cases "nr img = nr lbl \<or> nc img = nc lbl")
          case True' : True
          with True None None' li ll d show ?thesis
            by (simp add: read_sample_try_def Let_def kept_def)
        next
          case False
          with True None None' li ll assms show ?thesis
            by (simp add: read_sample_try_def Let_def)
        qed
      qed
    qed
  qed
qed

lemma new_sample_facts:
  "image_filenames (new_sample\<lparr>image_filenames := f\<rparr>) = f" "error (new_sample\<lparr>image_filenames := f\<rparr>) = []"
  by (simp_all add: new_sample_def)

lemma catch_into_error_facts:
  assumes "\<forall>e. snd r = Some e \<longrightarrow> is_std_exception e"
  shows "snd (catch_into_error r) = None
     \<and> input_image (fst (catch_into_error r)) = input_image (fst r)
     \<and> image_filenames (fst (catch_into_error r)) = image_filenames (fst r)
     \<and> (\<forall>e. snd r = Some e \<longrightarrow> error (fst (catch_into_error r)) = what e)"
  using assms by (cases r; cases "snd r") (auto simp: catch_into_error_def)

lemma read_sample_facts:
  "snd (read_sample li ll f cs rgt) = None
   \<and> input_image (fst (read_sample li ll f cs rgt)) = fst (li (image_filename f))
   \<and> image_filenames (fst (read_sample li ll f cs rgt)) = f
   \<and> (\<forall>e. snd (read_sample_try li ll f cs rgt (new_sample\<lparr>image_filenames := f\<rparr>)) = Some e \<longrightarrow>
          error (fst (read_sample li ll f cs rgt)) = what e)"
proof -
  note t = read_sample_try_facts [of "new_sample\<lparr>image_filenames := f\<rparr>" f li ll cs rgt, OF new_sample_facts]
  from t have std: "\<forall>e. snd (read_sample_try li ll f cs rgt (new_sample\<lparr>image_filenames := f\<rparr>)) = Some e
      \<longrightarrow> is_std_exception e" by simp
  from catch_into_error_facts [OF std] t show ?thesis
    by (simp add: read_sample_def)
qed

lemma decode_pixel_throws:
  "snd (decode_pixel lbl cs r c s) = Some e \<Longrightarrow> \<exists>p. e = Runtime_error (unknown_class_message p)"
  by (auto simp: decode_pixel_def rgba_label_to_index_label_def Let_def
           split: sum.splits if_splits option.splits)

lemma decode_throws:
  assumes "snd (decode_rgba_label_image lbl s cs) = Some e"
  shows "\<exists>p. e = Runtime_error (unknown_class_message p)"
proof -
  have row: "\<And>r s'. True \<Longrightarrow> True
      \<and> (\<forall>e. snd (for_each [0 ..< nc lbl] (decode_pixel lbl cs r) s') = Some e
             \<longrightarrow> (\<exists>p. e = Runtime_error (unknown_class_message p)))"
    by (rule for_each_invariant
          [where P = "\<lambda>s. True" and Q = "\<lambda>e. \<exists>p. e = Runtime_error (unknown_class_message p)"])
       (auto dest: decode_pixel_throws)
  have "True \<and> (\<forall>e. snd (decode_rgba_label_image lbl s cs) = Some e
             \<longrightarrow> (\<exists>p. e = Runtime_error (unknown_class_message p)))"
    unfolding decode_rgba_label_image_def
    by (rule for_each_invariant
          [where P = "\<lambda>s. True" and Q = "\<lambda>e. \<exists>p. e = Runtime_error (unknown_class_message p)"])
       (rule row, simp_all)
  with assms show ?thesis by blast
qed

lemma read_sample_try_throws:
  assumes "snd (read_sample_try li ll f cs rgt s) = Some e"
  shows "(\<exists>m. e = Image_load_error m) \<or> (\<exists>p. e = Runtime_error (unknown_class_message p))"
proof -
  obtain img x where li: "li (image_filename f) = (img, x)" by (cases "li (image_filename f)")
  obtain lbl y where ll: "ll (label_filename f) = (lbl, y)" by (cases "ll (label_filename f)")
  show ?thesis
  proof (cases x)
    case (Some m)
    with li assms show ?thesis by (auto simp: read_sample_try_def)
  next
    case None
    show ?thesis
    proof (cases y)
      case (Some m)
      with None li ll assms show ?thesis
        by (auto simp: read_sample_try_def Let_def split: if_splits)
    next
      case None' : None
      from assms None None' li ll
      have "snd (decode_rgba_label_image lbl (s\<lparr>input_image := img\<rparr>) cs) = Some e"
        by (simp add: read_sample_try_def Let_def split: if_splits)
      from decode_throws [OF this] show ?thesis by blast
    qed
  qed
qed

lemma unknown_class_text:
  "take 19 (what (Runtime_error (unknown_class_message p))) = ''Unknown class: r = ''"
  by (simp add: unknown_class_message_def c_str_def)

text \<open>
  Claim C3. \<open>read_sample\<close> returns for every input: no exception leaves the call, and
  an exception thrown inside its \<open>try\<close> block, while the image or the label image is
  loaded or decoded, ends as the text of the sample's \<open>error\<close> field: the field holds
  \<open>e.what()\<close> as a C string. The exception is the loader's
  \<open>dlib::image_load_error\<close>, or else the unknown-class error of the decoding, and then
  the field begins with the 19 characters \<open>Unknown class: r = \<close>, so it is not empty.
\<close>

theorem read_sample_returns:
  "snd (read_sample li ll f cs rgt) = None
   \<and> (\<forall>e. snd (read_sample_try li ll f cs rgt (new_sample\<lparr>image_filenames := f\<rparr>)) = Some e \<longrightarrow>
          error (fst (read_sample li ll f cs rgt)) = what e
          \<and> ((\<exists>m. e = Image_load_error m)
              \<or> take 19 (error (fst (read_sample li ll f cs rgt))) = ''Unknown class: r = ''))"
proof -
  note facts = read_sample_facts [of li ll f cs rgt]
  have "\<forall>e. snd (read_sample_try li ll f cs rgt (new_sample\<lparr>image_filenames := f\<rparr>)) = Some e \<longrightarrow>
          error (fst (read_sample li ll f cs rgt)) = what e
          \<and> ((\<exists>m. e = Image_load_error m)
              \<or> take 19 (error (fst (read_sample li ll f cs rgt))) = ''Unknown class: r = '')"
  proof (intro allI impI)
    fix e
    assume t: "snd (read_sample_try li ll f cs rgt (new_sample\<lparr>image_filenames := f\<rparr>)) = Some e"
    with facts have w: "error (fst (read_sample li ll f cs rgt)) = what e" by simp
    from read_sample_try_throws [OF t]
    have "(\<exists>m. e = Image_load_error m)
        \<or> take 19 (error (fst (read_sample li ll f cs rgt))) = ''Unknown class: r = ''"
    proof
      assume "\<exists>m. e = Image_load_error m"
      then show ?thesis ..
    next
      assume "\<exists>p. e = Runtime_error (unknown_class_message p)"
      then obtain p where "e = Runtime_error (unknown_class_message p)" ..
      with w unknown_class_text [of p] show ?thesis by simp
    qed
    with w show "error (fst (read_sample li ll f cs rgt)) = what e
          \<and> ((\<exists>m. e = Image_load_error m)
              \<or> take 19 (error (fst (read_sample li ll f cs rgt))) = ''Unknown class: r = '')" ..
  qed
  with facts show ?thesis by blast
qed

lemma char_of_0_255: "char_of (0::nat) = CHR 0x00" "char_of (255::nat) = CHR 0xFF"
  by code_simp+

lemma unknown_pixel_message:
  "unknown_class_message unknown_pixel
     = ''Unknown class: r = '' @ [CHR 0x00] @ '', g = '' @ [CHR 0x00] @ '', b = '' @ [CHR 0xFF]
         @ '', alpha = '' @ [CHR 0xFF]"
  by (simp add: unknown_class_message_def unknown_pixel_def char_of_uint8_def char_of_0_255)

theorem read_sample_returns_witness:
  "snd (read_sample_try load_unreadable load_two_ignored labelled_file default_anno_classes False
          (new_sample\<lparr>image_filenames := labelled_file\<rparr>))
     = Some (Image_load_error ''Unable to open file a.png'')
   \<and> snd (read_sample load_unreadable load_two_ignored labelled_file default_anno_classes False) = None
   \<and> error (fst (read_sample load_unreadable load_two_ignored labelled_file default_anno_classes False))
     = ''Unable to open file a.png''
   \<and> snd (read_sample_try load_one_pixel load_unknown_label labelled_file default_anno_classes False
          (new_sample\<lparr>image_filenames := labelled_file\<rparr>))
     = Some (Runtime_error (unknown_class_message unknown_pixel))
   \<and> length (unknown_class_message unknown_pixel) = 45
   \<and> snd (read_sample load_one_pixel load_unknown_label labelled_file default_anno_classes False) = None
   \<and> error (fst (read_sample load_one_pixel load_unknown_label labelled_file default_anno_classes False))
     = ''Unknown class: r = ''"
proof -
  have t: "snd (read_sample_try load_unreadable load_two_ignored labelled_file default_anno_classes False
          (new_sample\<lparr>image_filenames := labelled_file\<rparr>))
     = Some (Image_load_error ''Unable to open file a.png'')"
    by (simp add: read_sample_try_def load_unreadable_def labelled_file_def)
  have u: "snd (read_sample_try load_one_pixel load_unknown_label labelled_file default_anno_classes False
          (new_sample\<lparr>image_filenames := labelled_file\<rparr>))
     = Some (Runtime_error (unknown_class_message unknown_pixel))"
    by (simp add: read_sample_try_def load_one_pixel_def load_unknown_label_def one_pixel_image_def
          labelled_file_def new_sample_def decode_rgba_label_image_def decode_pixel_def
          rgba_label_to_index_label_def pixel_eq_def unknown_pixel_def rgba_ignore_label_def
          default_anno_classes_def Let_def)
  have w: "what (Runtime_error (unknown_class_message unknown_pixel)) = ''Unknown class: r = ''"
    by (simp add: unknown_pixel_message c_str_def)
  have l: "length (unknown_class_message unknown_pixel) = 45"
    by (simp add: unknown_pixel_message)
  from read_sample_returns [of load_unreadable load_two_ignored labelled_file default_anno_classes False]
    read_sample_returns [of load_one_pixel load_unknown_label labelled_file default_anno_classes False]
    t u w l
  show ?thesis by (simp add: c_str_def)
qed

lemma size_mismatch_in_rows_and_columns:
  assumes "li (image_filename f) = (img, None)" and "label_filename f \<noteq> []"
    and "ll (label_filename f) = (lbl, None)"
    and "nr img \<noteq> nr lbl" and "nc img \<noteq> nc lbl"
  shows "read_sample li ll f cs rgt
     = (new_sample\<lparr>image_filenames := f, input_image := img, error := ''Label image size mismatch''\<rparr>, None)"
  using assms
  by (simp add: read_sample_def read_sample_try_def catch_into_error_def Let_def)

lemma upt_0_2: "[0 ..< 2] = [0, Suc 0]"
  by (simp add: numeral_2_eq_2)

text \<open>
  Claim C1 fails on the code. The test before decoding is
  \<open>input_image.nr() == rgba_label_image.nr() || input_image.nc() == rgba_label_image.nc()\<close>:
  a label image is taken to fit when its rows or its columns agree with the input image, so
  the error is set only when both differ. Here the input image has one row and one column
  and the label image one row and two columns, both of the reserved colour: the label image
  is decoded into the sample and the \<open>error\<close> field stays empty.
\<close>

theorem label_of_other_width_is_decoded:
  "nr one_pixel_image = 1 \<and> nc one_pixel_image = 1
   \<and> nr two_ignored_pixels = 1 \<and> nc two_ignored_pixels = 2
   \<and> snd (read_sample load_one_pixel load_two_ignored labelled_file default_anno_classes False) = None
   \<and> error (fst (read_sample load_one_pixel load_two_ignored labelled_file default_anno_classes False)) = []
   \<and> nr (label_image (fst (read_sample load_one_pixel load_two_ignored labelled_file default_anno_classes False))) = 1
   \<and> nc (label_image (fst (read_sample load_one_pixel load_two_ignored labelled_file default_anno_classes False))) = 2
   \<and> px (label_image (fst (read_sample load_one_pixel load_two_ignored labelled_file default_anno_classes False))) 0 0
       = Some label_to_ignore
   \<and> px (label_image (fst (read_sample load_one_pixel load_two_ignored labelled_file default_anno_classes False))) 0 1
       = Some label_to_ignore"
  by (simp add: read_sample_def read_sample_try_def catch_into_error_def load_one_pixel_def
        load_two_ignored_def one_pixel_image_def two_ignored_pixels_def labelled_file_def
        new_sample_def decode_rgba_label_image_def decode_pixel_def rgba_label_to_index_label_def
        pixel_eq_def assign_px_def upt_0_2 Let_def)


section \<open>The loop over the images\<close>

text \<open>
  Claim C2. When the loop of \<open>main\<close> dequeues a sample \<open>s\<close> whose \<open>error\<close> field is
  not empty, it ends with an exception there: the samples after \<open>s\<close> have no effect on
  the result, the write requests are those of samples that came before \<open>s\<close>, and when
  all of those went through, the exception is the \<open>std::runtime_error\<close> that carries the
  error text of \<open>s\<close>.
\<close>

theorem main_loop_aborts_at_error:
  assumes err: "error s \<noteq> []"
  shows "main_loop infer (pre @ s # post) reqs = main_loop infer (pre @ [s]) reqs
     \<and> (\<exists>e. snd (main_loop infer (pre @ s # post) reqs) = Some e)
     \<and> (\<exists>k\<le>length pre. map filename (fst (main_loop infer (pre @ s # post) reqs))
            = map filename reqs
              @ map (\<lambda>x. image_filename (image_filenames x) @ ''_probability_map.png'') (take k pre))
     \<and> ((\<forall>x\<in>set pre. error x = [] \<and> (\<exists>p. infer (input_image x) = Inr p)) \<longrightarrow>
          snd (main_loop infer (pre @ s # post) reqs) = Some (Runtime_error (error s))
          \<and> length (fst (main_loop infer (pre @ s # post) reqs)) = length reqs + length pre)"
proof (induction pre arbitrary: reqs)
  case Nil
  from err show ?case by simp
next
  case (Cons x pre)
  show ?case
  proof (cases "error x \<noteq> []")
    case True
    then show ?thesis by auto
  next
    case False
    then have ex: "error x = []" by simp
    show ?thesis
    proof (cases "infer (input_image x)")
      case (Inl e)
      with ex show ?thesis by auto
    next
      case (Inr p)
      let ?r = "\<lparr>filename = image_filename (image_filenames x) @ ''_probability_map.png'',
                 result_width = original_width x, result_height = original_height x,
                 probability_image = p\<rparr>"
      let ?name = "\<lambda>x :: decoded_sample. image_filename (image_filenames x) @ ''_probability_map.png''"
      have eq1: "main_loop infer ((x # pre) @ s # post) reqs
          = main_loop infer (pre @ s # post) (reqs @ [?r])"
        using ex Inr by simp
      have eq2: "main_loop infer ((x # pre) @ [s]) reqs = main_loop infer (pre @ [s]) (reqs @ [?r])"
        using ex Inr by simp
      from Cons.IH [of "reqs @ [?r]"] obtain k where
        a: "main_loop infer (pre @ s # post) (reqs @ [?r]) = main_loop infer (pre @ [s]) (reqs @ [?r])"
        and b: "\<exists>e. snd (main_loop infer (pre @ s # post) (reqs @ [?r])) = Some e"
        and k: "k \<le> length pre"
        and c: "map filename (fst (main_loop infer (pre @ s # post) (reqs @ [?r])))
                 = map filename (reqs @ [?r]) @ map ?name (take k pre)"
        and d: "(\<forall>x\<in>set pre. error x = [] \<and> (\<exists>p. infer (input_image x) = Inr p)) \<longrightarrow>
          snd (main_loop infer (pre @ s # post) (reqs @ [?r])) = Some (Runtime_error (error s))
          \<and> length (fst (main_loop infer (pre @ s # post) (reqs @ [?r]))) = length (reqs @ [?r]) + length pre"
        by blast
      have c': "map filename (fst (main_loop infer ((x # pre) @ s # post) reqs))
                 = map filename reqs @ map ?name (take (Suc k) (x # pre))"
        unfolding eq1 using c by simp
      from k have k': "Suc k \<le> length (x # pre)" by simp
      have "main_loop infer ((x # pre) @ s # post) reqs = main_loop infer ((x # pre) @ [s]) reqs"
        unfolding eq1 eq2 by (rule a)
      moreover have "\<exists>e. snd (main_loop infer ((x # pre) @ s # post) reqs) = Some e"
        unfolding eq1 by (rule b)
      moreover have "\<exists>k\<le>length (x # pre). map filename (fst (main_loop infer ((x # pre) @ s # post) reqs))
            = map filename reqs @ map ?name (take k (x # pre))"
        using c' k' by blast
      moreover have "(\<forall>y\<in>set (x # pre). error y = [] \<and> (\<exists>p. infer (input_image y) = Inr p)) \<longrightarrow>
          snd (main_loop infer ((x # pre) @ s # post) reqs) = Some (Runtime_error (error s))
          \<and> length (fst (main_loop infer ((x # pre) @ s # post) reqs)) = length reqs + length (x # pre)"
        unfolding eq1 using d by simp
      ultimately show ?thesis by blast
    qed
  qed
qed

lemma read_sample_example_eq:
  "read_sample_example =
     \<lparr>image_filenames = unlabelled_file, input_image = one_pixel_image,
      label_image = empty_matrix None, labeled_points_by_class = Map.empty, error = [],
      original_width = 1, original_height = 1\<rparr>"
  by (simp add: read_sample_example_def read_sample_downscaling_def read_sample_def
        read_sample_try_def catch_into_error_def load_one_pixel_def unlabelled_file_def
        new_sample_def no_downscale_def one_pixel_image_def Let_def)

lemma unread_sample_example_eq:
  "unread_sample_example =
     \<lparr>image_filenames = unlabelled_file, input_image = empty_matrix 0,
      label_image = empty_matrix None, labeled_points_by_class = Map.empty,
      error = ''Unable to open file b.png'',
      original_width = 0, original_height = 0\<rparr>"
  by (simp add: unread_sample_example_def read_sample_downscaling_def read_sample_def
        read_sample_try_def catch_into_error_def load_unreadable_def unlabelled_file_def
        new_sample_def no_downscale_def empty_matrix_def c_str_def Let_def)

theorem main_loop_aborts_at_error_witness:
  "error unread_sample_example = ''Unable to open file b.png''
   \<and> error unread_sample_example \<noteq> []
   \<and> main_loop (infer_same []) [read_sample_example, unread_sample_example, read_sample_example] []
       = ([\<lparr>filename = ''b.png_probability_map.png'', result_width = 1, result_height = 1,
             probability_image = one_pixel_image\<rparr>],
          Some (Runtime_error ''Unable to open file b.png''))"
proof -
  have e: "error unread_sample_example = ''Unable to open file b.png''"
    by (simp add: unread_sample_example_eq)
  then have ne: "error unread_sample_example \<noteq> []" by simp
  have r: "main_loop (infer_same []) ([read_sample_example] @ [unread_sample_example]) []
       = ([\<lparr>filename = ''b.png_probability_map.png'', result_width = 1, result_height = 1,
             probability_image = one_pixel_image\<rparr>],
          Some (Runtime_error ''Unable to open file b.png''))"
    by (simp add: read_sample_example_eq unread_sample_example_eq infer_same_def unlabelled_file_def)
  from main_loop_aborts_at_error [OF ne, of "infer_same []" "[read_sample_example]" "[read_sample_example]" "[]"] r
  have "main_loop (infer_same []) [read_sample_example, unread_sample_example, read_sample_example] []
       = ([\<lparr>filename = ''b.png_probability_map.png'', result_width = 1, result_height = 1,
             probability_image = one_pixel_image\<rparr>],
          Some (Runtime_error ''Unable to open file b.png''))"
    by simp
  with e ne show ?thesis by simp
qed


text \<open>
  Claim C4. The decoded sample records the width and the height of the image as it was
  loaded, before downscaling, and holds the downscaled image as its input image; when the
  sample has no error and the network returns a probability image, the loop hands these
  two numbers on in the write request, and the writer resizes the result to exactly that
  many rows and columns.
\<close>

theorem original_size_recorded:
  "original_width (fst (read_sample_downscaling li ll downscale f cs rgt)) = int (nc (fst (li (image_filename f))))
   \<and> original_height (fst (read_sample_downscaling li ll downscale f cs rgt)) = int (nr (fst (li (image_filename f))))
   \<and> input_image (fst (read_sample_downscaling li ll downscale f cs rgt)) = downscale (fst (li (image_filename f)))
   \<and> (error (fst (read_sample_downscaling li ll downscale f cs rgt)) = [] \<longrightarrow>
        infer (downscale (fst (li (image_filename f)))) = Inr p \<longrightarrow>
          main_loop infer [fst (read_sample_downscaling li ll downscale f cs rgt)] []
            = ([\<lparr>filename = image_filename f @ ''_probability_map.png'',
                  result_width = int (nc (fst (li (image_filename f)))),
                  result_height = int (nr (fst (li (image_filename f)))),
                  probability_image = p\<rparr>], None)
          \<and> write_result_image resize
               \<lparr>filename = image_filename f @ ''_probability_map.png'',
                result_width = int (nc (fst (li (image_filename f)))),
                result_height = int (nr (fst (li (image_filename f)))),
                probability_image = p\<rparr>
            = Inr (image_filename f @ ''_probability_map.png'',
                   \<lparr>nr = nr (fst (li (image_filename f))), nc = nc (fst (li (image_filename f))),
                    px = resize p (nr (fst (li (image_filename f)))) (nc (fst (li (image_filename f))))\<rparr>))"
proof -
  obtain s x where r: "read_sample li ll f cs rgt = (s, x)" by (cases "read_sample li ll f cs rgt")
  from read_sample_facts [of li ll f cs rgt] r
  have img: "input_image s = fst (li (image_filename f))" and names: "image_filenames s = f"
    by simp_all
  show ?thesis
    by (simp add: read_sample_downscaling_def r img names write_result_image_def)
qed

theorem original_size_recorded_witness:
  "error (fst (read_sample_downscaling load_four_pixels load_two_ignored halve unlabelled_file
                 default_anno_classes False)) = []
   \<and> infer_same [] (halve four_pixel_image) = Inr (halve four_pixel_image)
   \<and> nr (halve four_pixel_image) = 1 \<and> nc (halve four_pixel_image) = 1
   \<and> original_width (fst (read_sample_downscaling load_four_pixels load_two_ignored halve unlabelled_file
                 default_anno_classes False)) = 2
   \<and> original_height (fst (read_sample_downscaling load_four_pixels load_two_ignored halve unlabelled_file
                 default_anno_classes False)) = 2
   \<and> input_image (fst (read_sample_downscaling load_four_pixels load_two_ignored halve unlabelled_file
                 default_anno_classes False)) = halve four_pixel_image
   \<and> main_loop (infer_same [])
        [fst (read_sample_downscaling load_four_pixels load_two_ignored halve unlabelled_file
                 default_anno_classes False)] []
       = ([\<lparr>filename = ''b.png_probability_map.png'', result_width = 2, result_height = 2,
             probability_image = halve four_pixel_image\<rparr>], None)
   \<and> write_result_image resize_to_first
        \<lparr>filename = ''b.png_probability_map.png'', result_width = 2, result_height = 2,
         probability_image = halve four_pixel_image\<rparr>
       = Inr (''b.png_probability_map.png'',
              \<lparr>nr = 2, nc = 2, px = resize_to_first (halve four_pixel_image) 2 2\<rparr>)"
proof -
  have e: "error (fst (read_sample_downscaling load_four_pixels load_two_ignored halve unlabelled_file
                 default_anno_classes False)) = []"
    by (simp add: read_sample_downscaling_def read_sample_def read_sample_try_def
          catch_into_error_def load_four_pixels_def unlabelled_file_def new_sample_def Let_def)
  have i: "infer_same [] (halve (fst (load_four_pixels (image_filename unlabelled_file))))
      = Inr (halve four_pixel_image)"
    by (simp add: infer_same_def load_four_pixels_def)
  have n: "image_filename unlabelled_file = ''b.png''" by (simp add: unlabelled_file_def)
  have d: "nr four_pixel_image = 2" "nc four_pixel_image = 2"
    by (simp_all add: four_pixel_image_def)
  have h: "nr (halve four_pixel_image) = 1" "nc (halve four_pixel_image) = 1"
    by (simp_all add: halve_def d)
  from original_size_recorded [of load_four_pixels load_two_ignored halve unlabelled_file default_anno_classes False
      "infer_same []" "halve four_pixel_image" resize_to_first] e i
  show ?thesis
    by (simp add: load_four_pixels_def n d h del: main_loop.simps)
qed

end
